theory Spec2Isabelle
  imports Complex_Main "HOL-Library.Word"
begin

section \<open>Python values used by the dish composer\<close>

subsection \<open>Floats\<close>

text \<open>
  A Python float is an IEEE binary64 number. \<open>F64 m e\<close> stands for the number
  \<open>m * 2 ^ e\<close> with \<open>\<bar>m\<bar> < 2 ^ 53\<close>. The numbers of this program are far from the
  ends of the exponent range, so overflow and subnormal numbers are left out.
\<close>

datatype float64 = F64 int int

text \<open>Python's \<open>int.bit_length\<close> on a non-negative integer.\<close>

function bit_length :: "int \<Rightarrow> nat" where
  "bit_length a = (if a \<le> 0 then 0 else Suc (bit_length (a div 2)))"
  by pat_completeness auto
termination
  by (relation "measure nat") auto

declare bit_length.simps [simp del]

text \<open>
  Rounding of the exact value \<open>m * 2 ^ e\<close> to 53 significant bits, to nearest, ties to
  the even mantissa: the rounding of every binary64 operation.
\<close>

definition round53 :: "int \<Rightarrow> int \<Rightarrow> float64" where
  "round53 m e =
     (let a = \<bar>m\<bar>; n = bit_length a in
      if n \<le> 53 then F64 m e
      else
        let k = n - 53;
            q = a div 2 ^ k;
            r = a mod 2 ^ k;
            h = 2 ^ (k - 1);
            q' = (if h < r \<or> (r = h \<and> odd q) then q + 1 else q)
        in F64 (sgn m * q') (e + int k))"

text \<open>The rational number a float stands for.\<close>

fun float_value :: "float64 \<Rightarrow> rat" where
  "float_value (F64 m e) =
     (if 0 \<le> e then of_int m * 2 ^ nat e else of_int m / 2 ^ nat (- e))"

text \<open>\<open>float(n)\<close> for a Python int, as the mixed product \<open>n * x\<close> does first.\<close>

definition float_of_int :: "int \<Rightarrow> float64" where
  "float_of_int n = round53 n 0"

text \<open>The product of two floats: the exact product, rounded once.\<close>

fun float_mul :: "float64 \<Rightarrow> float64 \<Rightarrow> float64" where
  "float_mul (F64 m1 e1) (F64 m2 e2) = round53 (m1 * m2) (e1 + e2)"

text \<open>\<open>int(x)\<close> for a float: truncation towards zero.\<close>

fun int_of_float :: "float64 \<Rightarrow> int" where
  "int_of_float (F64 m e) =
     (if 0 \<le> e then m * 2 ^ nat e else sgn m * (\<bar>m\<bar> div 2 ^ nat (- e)))"

text \<open>
  The float literals of the source, as the binary64 numbers nearest to the decimals:
  \<open>0.80 = 0x1.999999999999ap-1\<close>, \<open>0.60 = 0x1.3333333333333p-1\<close>,
  \<open>0.40 = 0x1.999999999999ap-2\<close>.
\<close>

definition lit_0_80 :: float64 where
  "lit_0_80 = F64 7205759403792794 (- 53)"

definition lit_0_60 :: float64 where
  "lit_0_60 = F64 5404319552844595 (- 53)"

definition lit_0_40 :: float64 where
  "lit_0_40 = F64 7205759403792794 (- 54)"

subsection \<open>Errors\<close>

type_synonym path = string

datatype error =
    FileNotFoundError path
  | IsADirectoryError path
  | PermissionError path
  | UnidentifiedImageError path
  | OSError path
  | KeyError string
  | IndexError

text \<open>Subscription \<open>d[k]\<close> of a dict with string keys.\<close>

definition getitem :: "(string \<rightharpoonup> 'a) \<Rightarrow> string \<Rightarrow> error + 'a" where
  "getitem d k = (case d k of None \<Rightarrow> Inl (KeyError k) | Some v \<Rightarrow> Inr v)"

section \<open>The imaging library\<close>

text \<open>
  The program calls Pillow for every operation on a raster. An image is its mode, its
  size \<open>(width, height)\<close> and its pixels; a pixel is the four bytes red, green, blue and
  alpha. The pixels of a stored raster of another mode are kept as the four bytes its
  conversion to RGBA yields, so \<open>convert\<close> only sets the mode.
\<close>

type_synonym uint8 = "8 word"

type_synonym rgba = "uint8 \<times> uint8 \<times> uint8 \<times> uint8"

record image =
  mode :: string
  im_size :: "int \<times> int"
  getpixel :: "int \<times> int \<Rightarrow> rgba"

fun alpha :: "rgba \<Rightarrow> uint8" where
  "alpha (r, g, b, a) = a"

text \<open>
  What a path of the file system names: a file that decodes to a raster, a file whose
  data is no image, a directory, or a file that may not be read.
\<close>

datatype entry =
    Raster image
  | Not_an_image
  | Directory
  | No_permission

text \<open>
  The world the program runs in: the files, the paths a file can be written at, the
  paths opened for reading so far, and the lines printed so far.
\<close>

record world =
  files :: "path \<rightharpoonup> entry"
  writable :: "path \<Rightarrow> bool"
  opened :: "path list"
  stdout :: "string list"

text \<open>
  \<open>Image.open(path)\<close>: raises \<open>FileNotFoundError\<close> when the path names nothing,
  \<open>IsADirectoryError\<close> for a directory, \<open>PermissionError\<close> for a file that may not be
  read and \<open>UnidentifiedImageError\<close> for a file that is no image.
\<close>

definition Image_open :: "world \<Rightarrow> path \<Rightarrow> (error + image) \<times> world" where
  "Image_open w p =
     (let w' = w\<lparr>opened := opened w @ [p]\<rparr> in
      case files w p of
        None \<Rightarrow> (Inl (FileNotFoundError p), w')
      | Some Directory \<Rightarrow> (Inl (IsADirectoryError p), w')
      | Some No_permission \<Rightarrow> (Inl (PermissionError p), w')
      | Some Not_an_image \<Rightarrow> (Inl (UnidentifiedImageError p), w')
      | Some (Raster im) \<Rightarrow> (Inr im, w'))"

text \<open>\<open>img.convert(m)\<close>.\<close>

definition convert :: "image \<Rightarrow> string \<Rightarrow> image" where
  "convert img m = img\<lparr>mode := m\<rparr>"

text \<open>\<open>Image.new(mode, size, color)\<close>: every pixel has the given colour.\<close>

definition Image_new :: "string \<Rightarrow> int \<times> int \<Rightarrow> rgba \<Rightarrow> image" where
  "Image_new m sz color = \<lparr>mode = m, im_size = sz, getpixel = (\<lambda>_. color)\<rparr>"

text \<open>
  \<open>img.resize(size, Image.Resampling.LANCZOS)\<close>: a new image of the requested size and
  of the mode of \<open>img\<close>. The filter that computes its pixels from those of \<open>img\<close> is a
  parameter: given the source image and the requested size, it yields the pixel at each
  position.
\<close>

type_synonym resampler = "image \<Rightarrow> int \<times> int \<Rightarrow> int \<times> int \<Rightarrow> rgba"

definition resize :: "resampler \<Rightarrow> image \<Rightarrow> int \<times> int \<Rightarrow> image" where
  "resize LANCZOS img sz = \<lparr>mode = mode img, im_size = sz, getpixel = LANCZOS img sz\<rparr>"

text \<open>
  The blend of one byte, as the library computes it with integers:
  \<open>tmp = in1 * (255 - msk) + in2 * msk + 128\<close>, then \<open>((tmp >> 8) + tmp) >> 8\<close>, stored
  as a byte.
\<close>

definition BLEND :: "uint8 \<Rightarrow> uint8 \<Rightarrow> uint8 \<Rightarrow> uint8" where
  "BLEND msk in1 in2 =
     (let tmp = unat in1 * (255 - unat msk) + unat in2 * unat msk + 128
      in of_nat ((tmp div 256 + tmp) div 256))"

fun blend_pixel :: "uint8 \<Rightarrow> rgba \<Rightarrow> rgba \<Rightarrow> rgba" where
  "blend_pixel a (r1, g1, b1, a1) (r2, g2, b2, a2) =
     (BLEND a r1 r2, BLEND a g1 g2, BLEND a b1 b2, BLEND a a1 a2)"

text \<open>
  \<open>self.paste(im, box, msk)\<close> with a corner \<open>box = (dx, dy)\<close> and an RGBA mask of the
  size of \<open>im\<close>: inside the region of \<open>im\<close>, clipped to \<open>self\<close>, each pixel of \<open>self\<close> is
  blended with the pixel of \<open>im\<close> by the alpha byte of the pixel of \<open>msk\<close>; all four
  bytes are blended. Mode and size of \<open>self\<close> stay. The result is the updated \<open>self\<close>.
\<close>

definition paste :: "image \<Rightarrow> image \<Rightarrow> int \<times> int \<Rightarrow> image \<Rightarrow> image" where
  "paste self im box msk =
     self\<lparr>getpixel := (\<lambda>(x, y).
        if 0 \<le> x \<and> x < fst (im_size self) \<and> 0 \<le> y \<and> y < snd (im_size self) \<and>
           fst box \<le> x \<and> x < fst box + fst (im_size im) \<and>
           snd box \<le> y \<and> y < snd box + snd (im_size im)
        then blend_pixel (alpha (getpixel msk (x - fst box, y - snd box)))
               (getpixel self (x, y)) (getpixel im (x - fst box, y - snd box))
        else getpixel self (x, y))\<rparr>"

text \<open>
  \<open>img.save(path, 'PNG')\<close>: raises \<open>OSError\<close> when the file cannot be written; PNG is
  lossless, so the file decodes to the image.
\<close>

definition save :: "world \<Rightarrow> image \<Rightarrow> path \<Rightarrow> (error + unit) \<times> world" where
  "save w img p =
     (if writable w p then (Inr (), w\<lparr>files := (files w)(p \<mapsto> Raster img)\<rparr>)
      else (Inl (OSError p), w))"

text \<open>\<open>print(s)\<close>.\<close>

definition print :: "world \<Rightarrow> string \<Rightarrow> world" where
  "print w s = w\<lparr>stdout := stdout w @ [s]\<rparr>"

section \<open>\<open>combine.py\<close>\<close>

definition canvas_size :: "int \<times> int" where
  "canvas_size = (1024, 1024)"

definition sizes :: "string \<rightharpoonup> float64" where
  "sizes = [''bowl'' \<mapsto> lit_0_80, ''noodle'' \<mapsto> lit_0_60, ''topping'' \<mapsto> lit_0_40]"

definition resize_and_center :: "resampler \<Rightarrow> image \<Rightarrow> float64 \<Rightarrow> image \<times> (int \<times> int)" where
  "resize_and_center LANCZOS img scale =
     (let new_size = int_of_float (float_mul (float_of_int (fst canvas_size)) scale);
          img_resized = resize LANCZOS img (new_size, new_size);
          x = (fst canvas_size - new_size) div 2;
          y = (snd canvas_size - new_size) div 2
      in (img_resized, (x, y)))"

definition offsets :: "(int \<times> int) list" where
  "offsets = [(0, - 30), (- 40, 25), (40, 25)]"

text \<open>
  The body of the loop over \<open>enumerate(topping_paths[:3])\<close>, on the items still to
  come. An exception leaves the loop with the world as it is then.
\<close>

fun topping_loop ::
  "resampler \<Rightarrow> image \<Rightarrow> world \<Rightarrow> (nat \<times> path) list \<Rightarrow> (error + image) \<times> world" where
  "topping_loop LANCZOS final_image w [] = (Inr final_image, w)"
| "topping_loop LANCZOS final_image w ((i, topping_path) # rest) =
     (case Image_open w topping_path of
        (Inl e, w') \<Rightarrow> (Inl e, w')
      | (Inr f, w') \<Rightarrow>
          (case getitem sizes ''topping'' of
             Inl e \<Rightarrow> (Inl e, w')
           | Inr scale \<Rightarrow>
               (let topping = convert f ''RGBA'';
                    (topping_resized, base_pos) = resize_and_center LANCZOS topping scale;
                    (offset_x, offset_y) = (if i < length offsets then offsets ! i else (0, 0));
                    topping_pos = (fst base_pos + offset_x, snd base_pos + offset_y)
                in topping_loop LANCZOS
                     (paste final_image topping_resized topping_pos topping_resized) w' rest)))"

text \<open>The line printed on success; the check mark is U+2705, three bytes in UTF-8.\<close>

definition success_line :: "path \<Rightarrow> string" where
  "success_line output_path =
     [CHR 0xE2, CHR 0x9C, CHR 0x85] @ '' Dish created successfully: '' @ output_path"

definition create_dish ::
  "resampler \<Rightarrow> world \<Rightarrow> path \<Rightarrow> path \<Rightarrow> path list \<Rightarrow> path \<Rightarrow> (error + path) \<times> world" where
  "create_dish LANCZOS w0 bowl_path noodle_path topping_paths output_path =
     (let final_image = Image_new ''RGBA'' canvas_size (255, 255, 255, 0) in
      case Image_open w0 bowl_path of
        (Inl e, w1) \<Rightarrow> (Inl e, w1)
      | (Inr f1, w1) \<Rightarrow>
      (case getitem sizes ''bowl'' of
        Inl e \<Rightarrow> (Inl e, w1)
      | Inr bowl_scale \<Rightarrow>
      (let bowl = convert f1 ''RGBA'';
           (bowl_resized, bowl_pos) = resize_and_center LANCZOS bowl bowl_scale;
           final_image = paste final_image bowl_resized bowl_pos bowl_resized in
      case Image_open w1 noodle_path of
        (Inl e, w2) \<Rightarrow> (Inl e, w2)
      | (Inr f2, w2) \<Rightarrow>
      (case getitem sizes ''noodle'' of
        Inl e \<Rightarrow> (Inl e, w2)
      | Inr noodle_scale \<Rightarrow>
      (let noodles = convert f2 ''RGBA'';
           (noodles_resized, noodles_pos) = resize_and_center LANCZOS noodles noodle_scale;
           final_image = paste final_image noodles_resized noodles_pos noodles_resized in
      case topping_loop LANCZOS final_image w2 (enumerate 0 (take 3 topping_paths)) of
        (Inl e, w3) \<Rightarrow> (Inl e, w3)
      | (Inr final_image, w3) \<Rightarrow>
      (case save w3 final_image output_path of
        (Inl e, w4) \<Rightarrow> (Inl e, w4)
      | (Inr u, w4) \<Rightarrow> (Inr output_path, print w4 (success_line output_path))))))))"

section \<open>\<open>create_dish.py\<close>\<close>

text \<open>The script defines \<open>create_dish\<close> a second time; this is its copy of the function.\<close>

definition canvas_size_cli :: "int \<times> int" where
  "canvas_size_cli = (1024, 1024)"

definition sizes_cli :: "string \<rightharpoonup> float64" where
  "sizes_cli = [''bowl'' \<mapsto> lit_0_80, ''noodle'' \<mapsto> lit_0_60, ''topping'' \<mapsto> lit_0_40]"

definition resize_and_center_cli ::
  "resampler \<Rightarrow> image \<Rightarrow> float64 \<Rightarrow> image \<times> (int \<times> int)" where
  "resize_and_center_cli LANCZOS img scale =
     (let new_size = int_of_float (float_mul (float_of_int (fst canvas_size_cli)) scale);
          img_resized = resize LANCZOS img (new_size, new_size);
          x = (fst canvas_size_cli - new_size) div 2;
          y = (snd canvas_size_cli - new_size) div 2
      in (img_resized, (x, y)))"

definition offsets_cli :: "(int \<times> int) list" where
  "offsets_cli = [(0, - 30), (- 40, 25), (40, 25)]"

fun topping_loop_cli ::
  "resampler \<Rightarrow> image \<Rightarrow> world \<Rightarrow> (nat \<times> path) list \<Rightarrow> (error + image) \<times> world" where
  "topping_loop_cli LANCZOS final_image w [] = (Inr final_image, w)"
| "topping_loop_cli LANCZOS final_image w ((i, topping_path) # rest) =
     (case Image_open w topping_path of
        (Inl e, w') \<Rightarrow> (Inl e, w')
      | (Inr f, w') \<Rightarrow>
          (case getitem sizes_cli ''topping'' of
             Inl e \<Rightarrow> (Inl e, w')
           | Inr scale \<Rightarrow>
               (let topping = convert f ''RGBA'';
                    (topping_resized, base_pos) = resize_and_center_cli LANCZOS topping scale;
                    (offset_x, offset_y) =
                      (if i < length offsets_cli then offsets_cli ! i else (0, 0));
                    topping_pos = (fst base_pos + offset_x, snd base_pos + offset_y)
                in topping_loop_cli LANCZOS
                     (paste final_image topping_resized topping_pos topping_resized) w' rest)))"

definition success_line_cli :: "path \<Rightarrow> string" where
  "success_line_cli output_path =
     [CHR 0xE2, CHR 0x9C, CHR 0x85] @ '' Dish created successfully: '' @ output_path"

definition create_dish_cli ::
  "resampler \<Rightarrow> world \<Rightarrow> path \<Rightarrow> path \<Rightarrow> path list \<Rightarrow> path \<Rightarrow> (error + path) \<times> world" where
  "create_dish_cli LANCZOS w0 bowl_path noodle_path topping_paths output_path =
     (let final_image = Image_new ''RGBA'' canvas_size_cli (255, 255, 255, 0) in
      case Image_open w0 bowl_path of
        (Inl e, w1) \<Rightarrow> (Inl e, w1)
      | (Inr f1, w1) \<Rightarrow>
      (case getitem sizes_cli ''bowl'' of
        Inl e \<Rightarrow> (Inl e, w1)
      | Inr bowl_scale \<Rightarrow>
      (let bowl = convert f1 ''RGBA'';
           (bowl_resized, bowl_pos) = resize_and_center_cli LANCZOS bowl bowl_scale;
           final_image = paste final_image bowl_resized bowl_pos bowl_resized in
      case Image_open w1 noodle_path of
        (Inl e, w2) \<Rightarrow> (Inl e, w2)
      | (Inr f2, w2) \<Rightarrow>
      (case getitem sizes_cli ''noodle'' of
        Inl e \<Rightarrow> (Inl e, w2)
      | Inr noodle_scale \<Rightarrow>
      (let noodles = convert f2 ''RGBA'';
           (noodles_resized, noodles_pos) =
             resize_and_center_cli LANCZOS noodles noodle_scale;
           final_image = paste final_image noodles_resized noodles_pos noodles_resized in
      case topping_loop_cli LANCZOS final_image w2 (enumerate 0 (take 3 topping_paths)) of
        (Inl e, w3) \<Rightarrow> (Inl e, w3)
      | (Inr final_image, w3) \<Rightarrow>
      (case save w3 final_image output_path of
        (Inl e, w4) \<Rightarrow> (Inl e, w4)
      | (Inr u, w4) \<Rightarrow> (Inr output_path, print w4 (success_line_cli output_path))))))))"

section \<open>Vocabulary of the properties\<close>

text \<open>
  The error a path cannot be opened with, if it cannot: the one \<open>Image.open\<close> raises
  for it.
\<close>

definition open_failure :: "world \<Rightarrow> path \<Rightarrow> error option" where
  "open_failure w p =
     (case files w p of
        None \<Rightarrow> Some (FileNotFoundError p)
      | Some Directory \<Rightarrow> Some (IsADirectoryError p)
      | Some No_permission \<Rightarrow> Some (PermissionError p)
      | Some Not_an_image \<Rightarrow> Some (UnidentifiedImageError p)
      | Some (Raster im) \<Rightarrow> None)"

text \<open>The canvas as \<open>Image.new\<close> makes it, before any layer is pasted.\<close>

definition blank_canvas :: image where
  "blank_canvas = Image_new ''RGBA'' (1024, 1024) (255, 255, 255, 0)"

text \<open>A layer: a decoded file, converted to RGBA and resized to a square of side \<open>s\<close>.\<close>

definition layer :: "resampler \<Rightarrow> image \<Rightarrow> int \<Rightarrow> image" where
  "layer LANCZOS f s = resize LANCZOS (convert f ''RGBA'') (s, s)"

text \<open>The offset the loop picks at index \<open>i\<close>, and the layer and position it pastes.\<close>

definition picked_offset :: "nat \<Rightarrow> int \<times> int" where
  "picked_offset i = (if i < length offsets then offsets ! i else (0, 0))"

definition topping_layer :: "resampler \<Rightarrow> nat \<Rightarrow> image \<Rightarrow> image \<times> (int \<times> int)" where
  "topping_layer LANCZOS i f =
     (layer LANCZOS f 409, (307 + fst (picked_offset i), 307 + snd (picked_offset i)))"

text \<open>
  Pasting a list of layers, each at its position and with itself as the mask, first
  to last.
\<close>

definition paste_in_order :: "image \<Rightarrow> (image \<times> (int \<times> int)) list \<Rightarrow> image" where
  "paste_in_order c ls = foldl (\<lambda>c (im, pos). paste c im pos im) c ls"

text \<open>
  The layers of a dish, bottom to top: the bowl, the noodle, then the toppings in the
  order of the list, the topping at index \<open>i\<close> moved by the \<open>i\<close>-th offset.
\<close>

definition dish_layers ::
  "resampler \<Rightarrow> image \<Rightarrow> image \<Rightarrow> image list \<Rightarrow> (image \<times> (int \<times> int)) list" where
  "dish_layers LANCZOS fb fn fts =
     (layer LANCZOS fb 819, (102, 102)) # (layer LANCZOS fn 614, (205, 205)) #
     map (\<lambda>(i, f). (layer LANCZOS f 409, (307 + fst (offsets ! i), 307 + snd (offsets ! i))))
       (enumerate 0 fts)"

text \<open>Whether a layer pasted at \<open>box\<close> reaches the pixel \<open>(x, y)\<close> of the canvas.\<close>

definition covers :: "image \<Rightarrow> image \<Rightarrow> int \<times> int \<Rightarrow> int \<times> int \<Rightarrow> bool" where
  "covers c im box p \<longleftrightarrow>
     0 \<le> fst p \<and> fst p < fst (im_size c) \<and> 0 \<le> snd p \<and> snd p < snd (im_size c) \<and>
     fst box \<le> fst p \<and> fst p < fst box + fst (im_size im) \<and>
     snd box \<le> snd p \<and> snd p < snd box + snd (im_size im)"

subsection \<open>The function without the guard on the index\<close>

text \<open>
  The loop and the function of \<open>combine.py\<close> with the plain subscription \<open>offsets[i]\<close>
  in place of the conditional expression: Python raises \<open>IndexError\<close> when \<open>i\<close> is
  not below the length of the table. Nothing else differs.
\<close>

fun topping_loop_unguarded ::
  "resampler \<Rightarrow> image \<Rightarrow> world \<Rightarrow> (nat \<times> path) list \<Rightarrow> (error + image) \<times> world" where
  "topping_loop_unguarded LANCZOS final_image w [] = (Inr final_image, w)"
| "topping_loop_unguarded LANCZOS final_image w ((i, topping_path) # rest) =
     (case Image_open w topping_path of
        (Inl e, w') \<Rightarrow> (Inl e, w')
      | (Inr f, w') \<Rightarrow>
          (case getitem sizes ''topping'' of
             Inl e \<Rightarrow> (Inl e, w')
           | Inr scale \<Rightarrow>
               (let topping = convert f ''RGBA'';
                    (topping_resized, base_pos) = resize_and_center LANCZOS topping scale
                in if i < length offsets
                   then
                     (let (offset_x, offset_y) = offsets ! i;
                          topping_pos = (fst base_pos + offset_x, snd base_pos + offset_y)
                      in topping_loop_unguarded LANCZOS
                           (paste final_image topping_resized topping_pos topping_resized)
                           w' rest)
                   else (Inl IndexError, w'))))"

definition create_dish_unguarded ::
  "resampler \<Rightarrow> world \<Rightarrow> path \<Rightarrow> path \<Rightarrow> path list \<Rightarrow> path \<Rightarrow> (error + path) \<times> world" where
  "create_dish_unguarded LANCZOS w0 bowl_path noodle_path topping_paths output_path =
     (let final_image = Image_new ''RGBA'' canvas_size (255, 255, 255, 0) in
      case Image_open w0 bowl_path of
        (Inl e, w1) \<Rightarrow> (Inl e, w1)
      | (Inr f1, w1) \<Rightarrow>
      (case getitem sizes ''bowl'' of
        Inl e \<Rightarrow> (Inl e, w1)
      | Inr bowl_scale \<Rightarrow>
      (let bowl = convert f1 ''RGBA'';
           (bowl_resized, bowl_pos) = resize_and_center LANCZOS bowl bowl_scale;
           final_image = paste final_image bowl_resized bowl_pos bowl_resized in
      case Image_open w1 noodle_path of
        (Inl e, w2) \<Rightarrow> (Inl e, w2)
      | (Inr f2, w2) \<Rightarrow>
      (case getitem sizes ''noodle'' of
        Inl e \<Rightarrow> (Inl e, w2)
      | Inr noodle_scale \<Rightarrow>
      (let noodles = convert f2 ''RGBA'';
           (noodles_resized, noodles_pos) = resize_and_center LANCZOS noodles noodle_scale;
           final_image = paste final_image noodles_resized noodles_pos noodles_resized in
      case topping_loop_unguarded LANCZOS final_image w2
             (enumerate 0 (take 3 topping_paths)) of
        (Inl e, w3) \<Rightarrow> (Inl e, w3)
      | (Inr final_image, w3) \<Rightarrow>
      (case save w3 final_image output_path of
        (Inl e, w4) \<Rightarrow> (Inl e, w4)
      | (Inr u, w4) \<Rightarrow> (Inr output_path, print w4 (success_line output_path))))))))"

subsection \<open>Sample inputs\<close>

text \<open>
  A nearest-neighbour filter, three small rasters and a world that holds them, beside a
  text file, a directory and a file that may not be read.
\<close>

definition nearest :: resampler where
  "nearest img sz p =
     getpixel img (fst p * fst (im_size img) div fst sz, snd p * snd (im_size img) div snd sz)"

definition broth :: image where
  "broth = Image_new ''RGB'' (4, 4) (200, 60, 20, 255)"

definition ramen :: image where
  "ramen = Image_new ''RGBA'' (2, 2) (240, 220, 130, 128)"

definition egg :: image where
  "egg = Image_new ''RGBA'' (3, 3) (250, 250, 240, 255)"

definition kitchen :: world where
  "kitchen =
     \<lparr>files = [''broth.png'' \<mapsto> Raster broth, ''ramen.png'' \<mapsto> Raster ramen,
               ''egg.png'' \<mapsto> Raster egg, ''notes.txt'' \<mapsto> Not_an_image,
               ''images'' \<mapsto> Directory, ''secret.png'' \<mapsto> No_permission],
      writable = (\<lambda>p. p \<noteq> ''/locked.png''),
      opened = [],
      stdout = []\<rparr>"

text \<open>The same input files in a world with another history and other files.\<close>

definition kitchen2 :: world where
  "kitchen2 =
     \<lparr>files = [''broth.png'' \<mapsto> Raster broth, ''ramen.png'' \<mapsto> Raster ramen,
               ''egg.png'' \<mapsto> Raster egg, ''dish.png'' \<mapsto> Raster egg],
      writable = (\<lambda>p. True),
      opened = [''egg.png''],
      stdout = [''hello'']\<rparr>"

section \<open>Sizes and positions of the layers\<close>

text \<open>
  Each literal is within half a unit in the last place of its decimal: it is the float
  the literal denotes.
\<close>

lemma literals_nearest:
  "\<bar>float_value lit_0_80 - 80 / 100\<bar> \<le> 1 / 2 ^ 54"
  "\<bar>float_value lit_0_60 - 60 / 100\<bar> \<le> 1 / 2 ^ 54"
  "\<bar>float_value lit_0_40 - 40 / 100\<bar> \<le> 1 / 2 ^ 55"
  by (simp_all add: lit_0_80_def lit_0_60_def lit_0_40_def)

lemma new_size_bowl:
  "int_of_float (float_mul (float_of_int (fst canvas_size)) lit_0_80) = 819"
  by (simp add: canvas_size_def float_of_int_def lit_0_80_def round53_def Let_def
      bit_length.simps)

lemma new_size_noodle:
  "int_of_float (float_mul (float_of_int (fst canvas_size)) lit_0_60) = 614"
  by (simp add: canvas_size_def float_of_int_def lit_0_60_def round53_def Let_def
      bit_length.simps)

lemma new_size_topping:
  "int_of_float (float_mul (float_of_int (fst canvas_size)) lit_0_40) = 409"
  by (simp add: canvas_size_def float_of_int_def lit_0_40_def round53_def Let_def
      bit_length.simps)

lemma resize_and_center_bowl:
  "resize_and_center LANCZOS img lit_0_80 = (resize LANCZOS img (819, 819), (102, 102))"
  by (simp add: resize_and_center_def new_size_bowl Let_def) (simp add: canvas_size_def)

lemma resize_and_center_noodle:
  "resize_and_center LANCZOS img lit_0_60 = (resize LANCZOS img (614, 614), (205, 205))"
  by (simp add: resize_and_center_def new_size_noodle Let_def) (simp add: canvas_size_def)

lemma resize_and_center_topping:
  "resize_and_center LANCZOS img lit_0_40 = (resize LANCZOS img (409, 409), (307, 307))"
  by (simp add: resize_and_center_def new_size_topping Let_def) (simp add: canvas_size_def)

lemma getitem_sizes:
  "getitem sizes ''bowl'' = Inr lit_0_80"
  "getitem sizes ''noodle'' = Inr lit_0_60"
  "getitem sizes ''topping'' = Inr lit_0_40"
  by (simp_all add: getitem_def sizes_def)

text \<open>
  C1. Whatever the input images are, the resized bowl is 819 by 819 pixels, the resized
  noodle 614 by 614 and each resized topping 409 by 409: the values of
  \<open>int(canvas_size[0] * scale)\<close> for the scales 0.80, 0.60 and 0.40 of the table
  \<open>sizes\<close>, which are the floors of 1024 times 0.80, 0.60 and 0.40.
\<close>

theorem C1_resized_layer_sizes:
  "getitem sizes ''bowl'' = Inr lit_0_80 \<and>
   getitem sizes ''noodle'' = Inr lit_0_60 \<and>
   getitem sizes ''topping'' = Inr lit_0_40 \<and>
   im_size (fst (resize_and_center LANCZOS bowl lit_0_80)) = (819, 819) \<and>
   im_size (fst (resize_and_center LANCZOS noodles lit_0_60)) = (614, 614) \<and>
   im_size (fst (resize_and_center LANCZOS topping lit_0_40)) = (409, 409) \<and>
   \<lfloor>1024 * (80 / 100 :: rat)\<rfloor> = 819 \<and>
   \<lfloor>1024 * (60 / 100 :: rat)\<rfloor> = 614 \<and>
   \<lfloor>1024 * (40 / 100 :: rat)\<rfloor> = 409"
  by (simp add: getitem_sizes resize_and_center_bowl resize_and_center_noodle
      resize_and_center_topping resize_def floor_eq_iff)

section \<open>The loop over the toppings and the whole function\<close>

lemma open_failure_opened [simp]: "open_failure (w\<lparr>opened := x\<rparr>) = open_failure w"
  by (rule ext) (simp add: open_failure_def)

lemma open_failure_None_iff:
  "open_failure w p = None \<longleftrightarrow> (\<exists>f. files w p = Some (Raster f))"
  by (simp add: open_failure_def split: option.splits entry.splits)


lemma Image_open_Some:
  "files w p = Some (Raster f) \<Longrightarrow>
   Image_open w p = (Inr f, w\<lparr>opened := opened w @ [p]\<rparr>)"
  by (simp add: Image_open_def)

lemma Image_open_fail:
  "open_failure w p = Some e \<Longrightarrow> Image_open w p = (Inl e, w\<lparr>opened := opened w @ [p]\<rparr>)"
  by (auto simp: Image_open_def open_failure_def split: option.splits entry.splits)

lemma topping_loop_Cons_Some:
  "files w p = Some (Raster f) \<Longrightarrow>
   topping_loop LANCZOS c w ((i, p) # rest) =
   topping_loop LANCZOS
     (paste c (fst (topping_layer LANCZOS i f)) (snd (topping_layer LANCZOS i f))
        (fst (topping_layer LANCZOS i f)))
     (w\<lparr>opened := opened w @ [p]\<rparr>) rest"
  by (simp add: Image_open_Some getitem_sizes resize_and_center_topping topping_layer_def
      layer_def picked_offset_def Let_def split: prod.splits)

lemma topping_loop_Cons_fail:
  "open_failure w p = Some e \<Longrightarrow>
   topping_loop LANCZOS c w ((i, p) # rest) = (Inl e, w\<lparr>opened := opened w @ [p]\<rparr>)"
  by (simp add: Image_open_fail)

lemma topping_loop_ok:
  "map (files w) (map snd items) = map (\<lambda>f. Some (Raster f)) fs \<Longrightarrow>
   topping_loop LANCZOS c w items =
   (Inr (paste_in_order c (map2 (\<lambda>(i, p) f. topping_layer LANCZOS i f) items fs)),
    w\<lparr>opened := opened w @ map snd items\<rparr>)"
proof (induction items arbitrary: c w fs)
  case Nil
  then show ?case by (simp add: paste_in_order_def)
next
  case (Cons a items)
  obtain i p where a: "a = (i, p)" by (cases a)
  from Cons.prems obtain f fs' where fs: "fs = f # fs'" and f: "files w p = Some (Raster f)"
    and rest: "map (files w) (map snd items) = map (\<lambda>f. Some (Raster f)) fs'"
    by (cases fs) (auto simp: a)
  have "map (files (w\<lparr>opened := opened w @ [p]\<rparr>)) (map snd items) =
        map (\<lambda>f. Some (Raster f)) fs'"
    using rest by simp
  from Cons.IH [OF this] show ?case
    by (simp add: a fs topping_loop_Cons_Some [OF f] paste_in_order_def case_prod_beta
        del: topping_loop.simps)
qed

lemma topping_loop_frame:
  "topping_loop LANCZOS c w items = (r, w') \<Longrightarrow>
   files w' = files w \<and> writable w' = writable w \<and> stdout w' = stdout w \<and>
   (\<exists>k. opened w' = opened w @ take k (map snd items))"
proof (induction items arbitrary: c w)
  case Nil
  then show ?case by auto
next
  case (Cons a items)
  obtain i p where a: "a = (i, p)" by (cases a)
  show ?case
  proof (cases "open_failure w p")
    case (Some e)
    with Cons.prems have w': "w' = w\<lparr>opened := opened w @ [p]\<rparr>"
      by (simp add: a topping_loop_Cons_fail [OF Some] del: topping_loop.simps)
    then have "opened w' = opened w @ take 1 (map snd (a # items))"
      by (simp add: a)
    with w' show ?thesis by (intro conjI exI [of _ 1]) simp_all
  next
    case None
    then obtain f where f: "files w p = Some (Raster f)"
      by (auto simp: open_failure_None_iff)
    from Cons.prems have "topping_loop LANCZOS
     (paste c (fst (topping_layer LANCZOS i f)) (snd (topping_layer LANCZOS i f))
        (fst (topping_layer LANCZOS i f)))
     (w\<lparr>opened := opened w @ [p]\<rparr>) items = (r, w')"
      by (simp add: a topping_loop_Cons_Some [OF f] del: topping_loop.simps)
    from Cons.IH [OF this] obtain k where
      k: "opened w' = opened w @ [p] @ take k (map snd items)"
      and fr: "files w' = files w" "writable w' = writable w" "stdout w' = stdout w"
      by auto
    from k have "opened w' = opened w @ take (Suc k) (map snd (a # items))"
      by (simp add: a)
    with fr show ?thesis by blast
  qed
qed

text \<open>The loop ends with the error of the first topping that cannot be opened.\<close>

lemma topping_loop_fails:
  "find (\<lambda>p. open_failure w p \<noteq> None) (map snd items) = Some p \<Longrightarrow>
   open_failure w p = Some e \<Longrightarrow>
   fst (topping_loop LANCZOS c w items) = Inl e"
proof (induction items arbitrary: c w)
  case Nil
  then show ?case by simp
next
  case (Cons a items)
  obtain i q where a: "a = (i, q)" by (cases a)
  show ?case
  proof (cases "open_failure w q")
    case (Some e')
    with Cons.prems have "p = q" by (simp add: a)
    with Cons.prems Some have "open_failure w q = Some e" by simp
    then show ?thesis
      by (simp add: a topping_loop_Cons_fail del: topping_loop.simps)
  next
    case None
    then obtain f where f: "files w q = Some (Raster f)"
      by (auto simp: open_failure_None_iff)
    let ?w = "w\<lparr>opened := opened w @ [q]\<rparr>"
    from Cons.prems None
    have "find (\<lambda>p. open_failure ?w p \<noteq> None) (map snd items) = Some p"
      and "open_failure ?w p = Some e"
      by (simp_all add: a)
    from Cons.IH [OF this] show ?thesis
      by (simp add: a topping_loop_Cons_Some [OF f] del: topping_loop.simps)
  qed
qed

lemma topping_loop_cong:
  "map (files w) (map snd items) = map (files v) (map snd items) \<Longrightarrow>
   fst (topping_loop LANCZOS c w items) = fst (topping_loop LANCZOS c v items)"
proof (induction items arbitrary: c w v)
  case Nil
  then show ?case by simp
next
  case (Cons a items)
  obtain i p where a: "a = (i, p)" by (cases a)
  from Cons.prems have eq: "files w p = files v p"
    and rest: "map (files w) (map snd items) = map (files v) (map snd items)"
    by (simp_all add: a)
  from eq have ofl: "open_failure v p = open_failure w p"
    by (simp add: open_failure_def)
  show ?case
  proof (cases "open_failure w p")
    case (Some e)
    with ofl have "open_failure v p = Some e" by simp
    with Some show ?thesis by (simp add: a topping_loop_Cons_fail del: topping_loop.simps)
  next
    case None
    then obtain f where f: "files w p = Some (Raster f)"
      by (auto simp: open_failure_None_iff)
    with eq have g: "files v p = Some (Raster f)" by simp
    have "map (files (w\<lparr>opened := opened w @ [p]\<rparr>)) (map snd items) =
          map (files (v\<lparr>opened := opened v @ [p]\<rparr>)) (map snd items)"
      using rest by simp
    from Cons.IH [OF this] show ?thesis
      by (simp add: a topping_loop_Cons_Some [OF f] topping_loop_Cons_Some [OF g]
          del: topping_loop.simps)
  qed
qed

lemma paste_size [simp]: "im_size (paste c im box m) = im_size c"
  by (simp add: paste_def)

lemma paste_mode [simp]: "mode (paste c im box m) = mode c"
  by (simp add: paste_def)

lemma paste_in_order_size [simp]: "im_size (paste_in_order c ls) = im_size c"
  unfolding paste_in_order_def by (induction ls arbitrary: c) (simp_all add: case_prod_beta)

lemma paste_in_order_mode [simp]: "mode (paste_in_order c ls) = mode c"
  unfolding paste_in_order_def by (induction ls arbitrary: c) (simp_all add: case_prod_beta)

text \<open>The function, stage by stage.\<close>

lemma create_dish_bowl_fail:
  "open_failure w b = Some e \<Longrightarrow>
   create_dish LANCZOS w b n tps out = (Inl e, w\<lparr>opened := opened w @ [b]\<rparr>)"
  by (simp add: create_dish_def Image_open_fail)

lemma create_dish_noodle_fail:
  "files w b = Some (Raster fb) \<Longrightarrow> open_failure w n = Some e \<Longrightarrow>
   create_dish LANCZOS w b n tps out = (Inl e, w\<lparr>opened := opened w @ [b, n]\<rparr>)"
  by (simp add: create_dish_def Image_open_Some Image_open_fail getitem_sizes
      resize_and_center_bowl Let_def)

lemma create_dish_loop:
  "files w b = Some (Raster fb) \<Longrightarrow> files w n = Some (Raster fn) \<Longrightarrow>
   create_dish LANCZOS w b n tps out =
     (case topping_loop LANCZOS
             (paste (paste blank_canvas (layer LANCZOS fb 819) (102, 102)
                       (layer LANCZOS fb 819))
                (layer LANCZOS fn 614) (205, 205) (layer LANCZOS fn 614))
             (w\<lparr>opened := opened w @ [b, n]\<rparr>) (enumerate 0 (take 3 tps)) of
        (Inl e, w3) \<Rightarrow> (Inl e, w3)
      | (Inr img, w3) \<Rightarrow>
          if writable w3 out
          then (Inr out, w3\<lparr>files := (files w3)(out \<mapsto> Raster img),
                            stdout := stdout w3 @ [success_line out]\<rparr>)
          else (Inl (OSError out), w3))"
  by (simp add: create_dish_def Image_open_Some getitem_sizes resize_and_center_bowl
      resize_and_center_noodle layer_def blank_canvas_def canvas_size_def save_def print_def
      Let_def split: prod.splits sum.splits)

lemma picked_offset_in_table: "i < 3 \<Longrightarrow> picked_offset i = offsets ! i"
  by (simp add: picked_offset_def offsets_def)

lemma map2_enumerate:
  "length xs = length fs \<Longrightarrow>
   map2 (\<lambda>(i, p) f. g i f) (enumerate k xs) fs = map (\<lambda>(i, f). g i f) (enumerate k fs)"
  by (induction xs fs arbitrary: k rule: list_induct2) simp_all

lemma enumerate_index_bound: "(i, x) \<in> set (enumerate 0 (take 3 xs)) \<Longrightarrow> i < 3"
  by (auto simp: in_set_enumerate_eq)

lemma topping_layers_in_table:
  assumes "length fts \<le> 3"
  shows "map (\<lambda>(i, f). topping_layer LANCZOS i f) (enumerate 0 fts) =
         map (\<lambda>(i, f). (layer LANCZOS f 409, (307 + fst (offsets ! i), 307 + snd (offsets ! i))))
           (enumerate 0 fts)"
proof (rule map_cong [OF refl])
  fix a assume mem: "a \<in> set (enumerate 0 fts)"
  obtain i f where a: "a = (i, f)" by (cases a)
  from mem have "i < length fts" by (simp add: a in_set_enumerate_eq)
  with assms have "i < 3" by simp
  then show "(case a of (i, f) \<Rightarrow> topping_layer LANCZOS i f) =
     (case a of (i, f) \<Rightarrow> (layer LANCZOS f 409, (307 + fst (offsets ! i), 307 + snd (offsets ! i))))"
    by (simp add: a topping_layer_def picked_offset_in_table)
qed

lemma create_dish_ok:
  assumes b: "files w b = Some (Raster fb)" and n: "files w n = Some (Raster fn)"
    and ts: "map (files w) (take 3 tps) = map (\<lambda>f. Some (Raster f)) fts"
    and out: "writable w out"
  shows "create_dish LANCZOS w b n tps out =
     (Inr out,
      w\<lparr>opened := opened w @ b # n # take 3 tps,
        files := (files w)(out \<mapsto>
          Raster (paste_in_order blank_canvas (dish_layers LANCZOS fb fn fts))),
        stdout := stdout w @ [success_line out]\<rparr>)"
proof -
  let ?w = "w\<lparr>opened := opened w @ [b, n]\<rparr>"
  let ?items = "enumerate 0 (take 3 tps)"
  let ?c = "paste (paste blank_canvas (layer LANCZOS fb 819) (102, 102) (layer LANCZOS fb 819))
              (layer LANCZOS fn 614) (205, 205) (layer LANCZOS fn 614)"
  from ts have len: "length (take 3 tps) = length fts"
    by (metis length_map)
  then have le3: "length fts \<le> 3" by (metis length_take min.cobounded2)
  have "map (files ?w) (map snd ?items) = map (\<lambda>f. Some (Raster f)) fts"
    using ts by simp
  from topping_loop_ok [OF this, of LANCZOS ?c]
  have loop: "topping_loop LANCZOS ?c ?w ?items =
    (Inr (paste_in_order ?c (map (\<lambda>(i, f). topping_layer LANCZOS i f) (enumerate 0 fts))),
     ?w\<lparr>opened := opened ?w @ take 3 tps\<rparr>)"
    by (simp add: map2_enumerate [OF len])
  have img: "paste_in_order ?c (map (\<lambda>(i, f). topping_layer LANCZOS i f) (enumerate 0 fts)) =
    paste_in_order blank_canvas (dish_layers LANCZOS fb fn fts)"
    by (simp add: topping_layers_in_table [OF le3] dish_layers_def paste_in_order_def)
  show ?thesis
    by (simp add: create_dish_loop [OF b n] loop img out)
qed

text \<open>
  The function ends with the error of the first of the bowl, the noodle and the first
  three toppings that cannot be opened, and leaves files and output as they were.
\<close>

lemma create_dish_fails:
  assumes first: "find (\<lambda>p. open_failure w p \<noteq> None) (b # n # take 3 tps) = Some p"
    and e: "open_failure w p = Some e"
  shows "fst (create_dish LANCZOS w b n tps out) = Inl e \<and>
     files (snd (create_dish LANCZOS w b n tps out)) = files w \<and>
     writable (snd (create_dish LANCZOS w b n tps out)) = writable w \<and>
     stdout (snd (create_dish LANCZOS w b n tps out)) = stdout w"
proof (cases "open_failure w b")
  case (Some e')
  with first have "p = b" by simp
  with e have "open_failure w b = Some e" by simp
  then show ?thesis by (simp add: create_dish_bowl_fail)
next
  case None
  then obtain fb where b: "files w b = Some (Raster fb)"
    by (auto simp: open_failure_None_iff)
  show ?thesis
  proof (cases "open_failure w n")
    case (Some e')
    with first None have "p = n" by simp
    with e have "open_failure w n = Some e" by simp
    then show ?thesis by (simp add: create_dish_noodle_fail [OF b])
  next
    case nn: None
    then obtain fn where n: "files w n = Some (Raster fn)"
      by (auto simp: open_failure_None_iff)
    let ?c = "paste (paste blank_canvas (layer LANCZOS fb 819) (102, 102)
                       (layer LANCZOS fb 819))
                (layer LANCZOS fn 614) (205, 205) (layer LANCZOS fn 614)"
    let ?w = "w\<lparr>opened := opened w @ [b, n]\<rparr>"
    from first None nn
    have "find (\<lambda>p. open_failure ?w p \<noteq> None) (map snd (enumerate 0 (take 3 tps))) = Some p"
      by simp
    moreover from e have "open_failure ?w p = Some e" by simp
    ultimately have r: "fst (topping_loop LANCZOS ?c ?w (enumerate 0 (take 3 tps))) = Inl e"
      by (rule topping_loop_fails)
    obtain r' w3 where loop: "topping_loop LANCZOS ?c ?w (enumerate 0 (take 3 tps)) = (r', w3)"
      by (cases "topping_loop LANCZOS ?c ?w (enumerate 0 (take 3 tps))")
    with r have r': "r' = Inl e" by simp
    from topping_loop_frame [OF loop]
    have "files w3 = files w" "writable w3 = writable w" "stdout w3 = stdout w"
      by simp_all
    then show ?thesis
      by (simp add: create_dish_loop [OF b n] loop r')
  qed
qed

text \<open>A run that succeeds had all its input files and a writable output path.\<close>

lemma all_present:
  "\<forall>p \<in> set xs. open_failure w p = None \<Longrightarrow>
   \<exists>fs. map (files w) xs = map (\<lambda>f. Some (Raster f)) fs"
proof (induction xs)
  case Nil
  then show ?case by simp
next
  case (Cons x xs)
  then obtain fs where fs: "map (files w) xs = map (\<lambda>f. Some (Raster f)) fs" by auto
  from Cons.prems obtain f where "files w x = Some (Raster f)"
    by (auto simp: open_failure_None_iff)
  with fs have "map (files w) (x # xs) = map (\<lambda>f. Some (Raster f)) (f # fs)" by simp
  then show ?case ..
qed

lemma create_dish_success:
  assumes "fst (create_dish LANCZOS w b n tps out) = Inr r"
  shows "\<exists>fb fn fts. files w b = Some (Raster fb) \<and> files w n = Some (Raster fn) \<and>
     map (files w) (take 3 tps) = map (\<lambda>f. Some (Raster f)) fts \<and> writable w out"
proof -
  have none: "find (\<lambda>p. open_failure w p \<noteq> None) (b # n # take 3 tps) = None"
  proof (cases "find (\<lambda>p. open_failure w p \<noteq> None) (b # n # take 3 tps)")
    case None
    then show ?thesis .
  next
    case (Some p)
    then have "open_failure w p \<noteq> None" by (simp only: find_Some_iff) blast
    then obtain e where "open_failure w p = Some e" by auto
    from create_dish_fails [OF Some this, of LANCZOS out] assms show ?thesis by simp
  qed
  then have all: "\<forall>p \<in> set (b # n # take 3 tps). open_failure w p = None"
    by (simp only: find_None_iff) blast
  then obtain fb fn where b: "files w b = Some (Raster fb)" and n: "files w n = Some (Raster fn)"
    by (auto simp: open_failure_None_iff)
  from all have "\<forall>p \<in> set (take 3 tps). open_failure w p = None" by simp
  from all_present [OF this] obtain fts where
    ts: "map (files w) (take 3 tps) = map (\<lambda>f. Some (Raster f)) fts" ..
  let ?c = "paste (paste blank_canvas (layer LANCZOS fb 819) (102, 102)
                     (layer LANCZOS fb 819))
              (layer LANCZOS fn 614) (205, 205) (layer LANCZOS fn 614)"
  let ?w = "w\<lparr>opened := opened w @ [b, n]\<rparr>"
  obtain r' w3 where loop: "topping_loop LANCZOS ?c ?w (enumerate 0 (take 3 tps)) = (r', w3)"
    by (cases "topping_loop LANCZOS ?c ?w (enumerate 0 (take 3 tps))")
  from assms have "writable w3 out"
    by (cases r') (simp_all add: create_dish_loop [OF b n] loop split: if_splits)
  with topping_loop_frame [OF loop] have "writable w out" by simp
  with b n ts show ?thesis by blast
qed

lemma kitchen_dish:
  "fst (create_dish nearest kitchen ''broth.png'' ''ramen.png'' [''egg.png''] ''dish.png'') =
     Inr ''dish.png''"
proof -
  have "map (files kitchen) (take 3 [''egg.png'']) = map (\<lambda>f. Some (Raster f)) [egg]"
    by (simp add: kitchen_def)
  then show ?thesis
    by (subst create_dish_ok [where fb = broth and fn = ramen and fts = "[egg]"])
      (simp_all add: kitchen_def)
qed

text \<open>The paths opened are an initial part of bowl, noodle and first three toppings.\<close>

lemma create_dish_opened:
  "\<exists>k. opened (snd (create_dish LANCZOS w b n tps out)) =
        opened w @ take k (b # n # take 3 tps)"
proof (cases "open_failure w b")
  case (Some e)
  then have "opened (snd (create_dish LANCZOS w b n tps out)) =
     opened w @ take 1 (b # n # take 3 tps)"
    by (simp add: create_dish_bowl_fail)
  then show ?thesis ..
next
  case None
  then obtain fb where b: "files w b = Some (Raster fb)"
    by (auto simp: open_failure_None_iff)
  show ?thesis
  proof (cases "open_failure w n")
    case (Some e)
    then have "opened (snd (create_dish LANCZOS w b n tps out)) =
       opened w @ take 2 (b # n # take 3 tps)"
      by (simp add: create_dish_noodle_fail [OF b] numeral_2_eq_2)
    then show ?thesis ..
  next
    case None
    then obtain fn where n: "files w n = Some (Raster fn)"
      by (auto simp: open_failure_None_iff)
    let ?c = "paste (paste blank_canvas (layer LANCZOS fb 819) (102, 102)
                       (layer LANCZOS fb 819))
                (layer LANCZOS fn 614) (205, 205) (layer LANCZOS fn 614)"
    let ?w = "w\<lparr>opened := opened w @ [b, n]\<rparr>"
    obtain r w3 where loop: "topping_loop LANCZOS ?c ?w (enumerate 0 (take 3 tps)) = (r, w3)"
      by (cases "topping_loop LANCZOS ?c ?w (enumerate 0 (take 3 tps))")
    from topping_loop_frame [OF loop] obtain k where
      "opened w3 = opened w @ [b, n] @ take k (take 3 tps)" by auto
    then have k: "opened w3 = opened w @ take (Suc (Suc k)) (b # n # take 3 tps)" by simp
    have "opened (snd (create_dish LANCZOS w b n tps out)) = opened w3"
      by (simp add: create_dish_loop [OF b n] loop split: sum.splits)
    with k show ?thesis by metis
  qed
qed

text \<open>The result depends on the world through the input files and the output path only.\<close>

lemma create_dish_cong:
  assumes "map (files w) (b # n # take 3 tps) = map (files v) (b # n # take 3 tps)"
    and "writable w out = writable v out"
  shows "fst (create_dish LANCZOS w b n tps out) = fst (create_dish LANCZOS v b n tps out)"
proof -
  from assms(1) have b: "files w b = files v b" and n: "files w n = files v n"
    and ts: "map (files w) (take 3 tps) = map (files v) (take 3 tps)"
    by simp_all
  from b n have ofb: "open_failure v b = open_failure w b"
    and ofn: "open_failure v n = open_failure w n"
    by (simp_all add: open_failure_def)
  show ?thesis
  proof (cases "open_failure w b")
    case (Some e)
    with ofb have "open_failure v b = Some e" by simp
    with Some show ?thesis by (simp add: create_dish_bowl_fail)
  next
    case None
    then obtain fb where fb: "files w b = Some (Raster fb)"
      by (auto simp: open_failure_None_iff)
    with b have vb: "files v b = Some (Raster fb)" by simp
    show ?thesis
    proof (cases "open_failure w n")
      case (Some e)
      with ofn have "open_failure v n = Some e" by simp
      with Some show ?thesis
        by (simp add: create_dish_noodle_fail [OF fb] create_dish_noodle_fail [OF vb])
    next
      case None
      then obtain fn where fn: "files w n = Some (Raster fn)"
        by (auto simp: open_failure_None_iff)
      with n have vn: "files v n = Some (Raster fn)" by simp
      let ?c = "paste (paste blank_canvas (layer LANCZOS fb 819) (102, 102)
                         (layer LANCZOS fb 819))
                  (layer LANCZOS fn 614) (205, 205) (layer LANCZOS fn 614)"
      let ?w = "w\<lparr>opened := opened w @ [b, n]\<rparr>"
      let ?v = "v\<lparr>opened := opened v @ [b, n]\<rparr>"
      obtain r1 w3 where l1: "topping_loop LANCZOS ?c ?w (enumerate 0 (take 3 tps)) = (r1, w3)"
        by (cases "topping_loop LANCZOS ?c ?w (enumerate 0 (take 3 tps))")
      obtain r2 v3 where l2: "topping_loop LANCZOS ?c ?v (enumerate 0 (take 3 tps)) = (r2, v3)"
        by (cases "topping_loop LANCZOS ?c ?v (enumerate 0 (take 3 tps))")
      have "map (files ?w) (map snd (enumerate 0 (take 3 tps))) =
            map (files ?v) (map snd (enumerate 0 (take 3 tps)))"
        using ts by simp
      from topping_loop_cong [OF this, of LANCZOS ?c] l1 l2 have r: "r1 = r2" by simp
      from topping_loop_frame [OF l1] topping_loop_frame [OF l2] assms(2)
      have wr: "writable w3 out = writable v3 out" by simp
      show ?thesis
        by (simp add: create_dish_loop [OF fb fn] create_dish_loop [OF vb vn] l1 l2 r wr
            split: sum.splits)
    qed
  qed
qed

text \<open>How a run can end: with the error of an open, with that of the save, or well.\<close>

lemma open_failure_kinds:
  "open_failure w p = Some e \<Longrightarrow>
   e = FileNotFoundError p \<or> e = IsADirectoryError p \<or> e = PermissionError p \<or>
   e = UnidentifiedImageError p"
  by (auto simp: open_failure_def split: option.splits entry.splits)

lemma create_dish_result:
  "(\<exists>p e. open_failure w p = Some e \<and> fst (create_dish LANCZOS w b n tps out) = Inl e) \<or>
   fst (create_dish LANCZOS w b n tps out) = Inl (OSError out) \<or>
   fst (create_dish LANCZOS w b n tps out) = Inr out"
proof (cases "find (\<lambda>p. open_failure w p \<noteq> None) (b # n # take 3 tps)")
  case (Some p)
  then have "open_failure w p \<noteq> None" by (simp only: find_Some_iff) blast
  then obtain e where e: "open_failure w p = Some e" by auto
  from create_dish_fails [OF Some e, of LANCZOS out] e show ?thesis by blast
next
  case None
  then have all: "\<forall>p \<in> set (b # n # take 3 tps). open_failure w p = None"
    by (simp only: find_None_iff) blast
  then obtain fb fn where b: "files w b = Some (Raster fb)" and n: "files w n = Some (Raster fn)"
    by (auto simp: open_failure_None_iff)
  from all have "\<forall>p \<in> set (take 3 tps). open_failure w p = None" by simp
  from all_present [OF this] obtain fts where
    ts: "map (files w) (take 3 tps) = map (\<lambda>f. Some (Raster f)) fts" ..
  show ?thesis
  proof (cases "writable w out")
    case True
    from create_dish_ok [OF b n ts True, of LANCZOS] show ?thesis by simp
  next
    case False
    let ?w = "w\<lparr>opened := opened w @ [b, n]\<rparr>"
    have "map (files ?w) (map snd (enumerate 0 (take 3 tps))) =
          map (\<lambda>f. Some (Raster f)) fts"
      using ts by simp
    from topping_loop_ok [OF this] False
    have "fst (create_dish LANCZOS w b n tps out) = Inl (OSError out)"
      by (simp add: create_dish_loop [OF b n])
    then show ?thesis by simp
  qed
qed

text \<open>With every index inside the table, the guard on the index changes nothing.\<close>

lemma topping_loop_unguarded_eq:
  "\<forall>(i, p) \<in> set items. i < length offsets \<Longrightarrow>
   topping_loop_unguarded LANCZOS c w items = topping_loop LANCZOS c w items"
proof (induction items arbitrary: c w)
  case Nil
  then show ?case by simp
next
  case (Cons a items)
  obtain i p where a: "a = (i, p)" by (cases a)
  from Cons.prems have i: "i < length offsets"
    and rest: "\<forall>(i, p) \<in> set items. i < length offsets"
    by (simp_all add: a)
  show ?case
    by (simp add: a i Cons.IH [OF rest] Let_def
        cong: prod.case_cong sum.case_cong)
qed

lemma enumerate_take_in_table:
  "\<forall>(i, p) \<in> set (enumerate 0 (take 3 tps)). i < length offsets"
  by (auto simp: offsets_def in_set_enumerate_eq)

section \<open>Blending\<close>

text \<open>The shifts of the blend divide by 255, rounding to nearest.\<close>

lemma div255:
  assumes "(x::nat) \<le> 65025"
  shows "((x + 128) div 256 + (x + 128)) div 256 = (x + 127) div 255"
proof -
  define q where "q = (x + 128) div 256"
  define s where "s = (x + 128) mod 256"
  have x: "x + 128 = 256 * q + s" and s: "s < 256"
    by (simp_all add: q_def s_def)
  have q: "q \<le> 254"
  proof -
    have "256 * q \<le> 65153" using x assms by linarith
    then show ?thesis by linarith
  qed
  have qs: "1 \<le> q + s" using x by linarith
  have L: "((x + 128) div 256 + (x + 128)) div 256 = q + (q + s) div 256"
  proof -
    have "(x + 128) div 256 + (x + 128) = (q + s) + q * 256"
      using x by (simp add: q_def)
    then show ?thesis by (simp only: div_mult_self3)
  qed
  have R: "(x + 127) div 255 = q + (q + s - 1) div 255"
  proof -
    have "x + 127 = (q + s - 1) + q * 255" using x qs by linarith
    then show ?thesis by (simp only: div_mult_self3)
  qed
  have "(q + s) div 256 = (q + s - 1) div 255"
  proof (cases "q + s \<le> 255")
    case True
    then show ?thesis using qs by simp
  next
    case False
    then have a: "256 \<le> q + s" "q + s \<le> 509" using q s by linarith+
    then have "(q + s) div 256 = 1" by linarith
    moreover from a have "(q + s - 1) div 255 = 1" by linarith
    ultimately show ?thesis by simp
  qed
  with L R show ?thesis by simp
qed

lemma unat_byte: "unat (a :: uint8) \<le> 255"
  using unsigned_less [of a, where 'a = nat] by simp

lemma weighted_sum_bound:
  "unat (x :: uint8) * (255 - unat (a :: uint8)) + unat (y :: uint8) * unat a \<le> 65025"
proof -
  have "unat x * (255 - unat a) \<le> 255 * (255 - unat a)"
    by (rule mult_le_mono1) (rule unat_byte)
  moreover have "unat y * unat a \<le> 255 * unat a"
    by (rule mult_le_mono1) (rule unat_byte)
  moreover have "unat a \<le> 255" by (rule unat_byte)
  ultimately show ?thesis by linarith
qed

lemma unat_BLEND:
  "unat (BLEND a x y) = (unat x * (255 - unat a) + unat y * unat a + 127) div 255"
proof -
  let ?s = "unat x * (255 - unat a) + unat y * unat a"
  have b: "?s \<le> 65025" by (rule weighted_sum_bound)
  then have "(?s + 127) div 255 \<le> 255" by linarith
  then have "unat (of_nat ((?s + 127) div 255) :: uint8) = (?s + 127) div 255"
    by (simp add: unat_of_nat)
  then show ?thesis
    by (simp add: BLEND_def Let_def div255 [OF b])
qed

lemma BLEND_opaque: "BLEND 255 x y = y"
  by (simp add: word_unat_eq_iff unat_BLEND)

lemma BLEND_transparent: "BLEND 0 x y = x"
  by (simp add: word_unat_eq_iff unat_BLEND)

lemma blend_pixel_opaque: "blend_pixel 255 old new = new"
  by (cases old, cases new) (simp add: BLEND_opaque)

lemma blend_pixel_transparent: "blend_pixel 0 old new = old"
  by (cases old, cases new) (simp add: BLEND_transparent)

lemma getpixel_paste:
  "getpixel (paste c im box m) p =
     (if covers c im box p
      then blend_pixel (alpha (getpixel m (fst p - fst box, snd p - snd box))) (getpixel c p)
             (getpixel im (fst p - fst box, snd p - snd box))
      else getpixel c p)"
  by (cases p) (simp add: paste_def covers_def)

lemma paste_in_order_snoc:
  "paste_in_order c (ls @ [(im, box)]) = paste (paste_in_order c ls) im box im"
  by (simp add: paste_in_order_def)

section \<open>Placement of the layers\<close>

text \<open>
  C2. A layer resized to side \<open>S\<close> is pasted with its top-left corner at
  \<open>((1024 - S) // 2, (1024 - S) // 2)\<close>: the bowl at (102, 102), the noodle at
  (205, 205), a topping at the base (307, 307) plus the offset of its index in the table,
  so that three toppings are pasted at (307, 277), (267, 332) and (347, 332). When the
  five files exist and the output can be written, the saved image is the canvas with the
  five layers pasted at these positions.
\<close>

theorem C2_paste_positions:
  "snd (resize_and_center LANCZOS img scale) =
     ((1024 - fst (im_size (fst (resize_and_center LANCZOS img scale)))) div 2,
      (1024 - snd (im_size (fst (resize_and_center LANCZOS img scale)))) div 2) \<and>
   snd (resize_and_center LANCZOS img lit_0_80) = (102, 102) \<and>
   snd (resize_and_center LANCZOS img lit_0_60) = (205, 205) \<and>
   snd (resize_and_center LANCZOS img lit_0_40) = (307, 307) \<and>
   (files w b = Some (Raster fb) \<and> files w n = Some (Raster fn) \<and>
    files w t0 = Some (Raster f0) \<and> files w t1 = Some (Raster f1) \<and>
    files w t2 = Some (Raster f2) \<and> writable w out \<longrightarrow>
    files (snd (create_dish LANCZOS w b n [t0, t1, t2] out)) out =
      Some (Raster (paste (paste (paste (paste (paste blank_canvas
        (layer LANCZOS fb 819) (102, 102) (layer LANCZOS fb 819))
        (layer LANCZOS fn 614) (205, 205) (layer LANCZOS fn 614))
        (layer LANCZOS f0 409) (307, 277) (layer LANCZOS f0 409))
        (layer LANCZOS f1 409) (267, 332) (layer LANCZOS f1 409))
        (layer LANCZOS f2 409) (347, 332) (layer LANCZOS f2 409))))"
proof (intro conjI impI)
  show "snd (resize_and_center LANCZOS img scale) =
     ((1024 - fst (im_size (fst (resize_and_center LANCZOS img scale)))) div 2,
      (1024 - snd (im_size (fst (resize_and_center LANCZOS img scale)))) div 2)"
    by (simp add: resize_and_center_def Let_def resize_def canvas_size_def)
  show "snd (resize_and_center LANCZOS img lit_0_80) = (102, 102)"
    by (simp add: resize_and_center_bowl)
  show "snd (resize_and_center LANCZOS img lit_0_60) = (205, 205)"
    by (simp add: resize_and_center_noodle)
  show "snd (resize_and_center LANCZOS img lit_0_40) = (307, 307)"
    by (simp add: resize_and_center_topping)
next
  assume h: "files w b = Some (Raster fb) \<and> files w n = Some (Raster fn) \<and>
    files w t0 = Some (Raster f0) \<and> files w t1 = Some (Raster f1) \<and>
    files w t2 = Some (Raster f2) \<and> writable w out"
  then have ts: "map (files w) (take 3 [t0, t1, t2]) =
      map (\<lambda>f. Some (Raster f)) [f0, f1, f2]"
    by simp
  from h have b: "files w b = Some (Raster fb)" and n: "files w n = Some (Raster fn)"
    and out: "writable w out"
    by simp_all
  from create_dish_ok [OF b n ts out, of LANCZOS]
  have "files (snd (create_dish LANCZOS w b n [t0, t1, t2] out)) out =
        Some (Raster (paste_in_order blank_canvas (dish_layers LANCZOS fb fn [f0, f1, f2])))"
    by simp
  moreover have "enumerate 0 [f0, f1, f2] = [(0, f0), (1, f1), (2, f2)]"
    by (simp add: enumerate_eq_zip upt_rec)
  ultimately show "files (snd (create_dish LANCZOS w b n [t0, t1, t2] out)) out =
      Some (Raster (paste (paste (paste (paste (paste blank_canvas
        (layer LANCZOS fb 819) (102, 102) (layer LANCZOS fb 819))
        (layer LANCZOS fn 614) (205, 205) (layer LANCZOS fn 614))
        (layer LANCZOS f0 409) (307, 277) (layer LANCZOS f0 409))
        (layer LANCZOS f1 409) (267, 332) (layer LANCZOS f1 409))
        (layer LANCZOS f2 409) (347, 332) (layer LANCZOS f2 409)))"
    by (simp add: dish_layers_def paste_in_order_def offsets_def)
qed

text \<open>The sample world has all the files of the hypotheses of C2.\<close>

theorem C2_paste_positions_witness:
  "files kitchen ''broth.png'' = Some (Raster broth) \<and>
   files kitchen ''ramen.png'' = Some (Raster ramen) \<and>
   files kitchen ''egg.png'' = Some (Raster egg) \<and> writable kitchen ''dish.png'' \<and>
   files (snd (create_dish nearest kitchen ''broth.png'' ''ramen.png''
                 [''egg.png'', ''egg.png'', ''egg.png''] ''dish.png'')) ''dish.png'' =
       Some (Raster (paste (paste (paste (paste (paste blank_canvas
         (layer nearest broth 819) (102, 102) (layer nearest broth 819))
         (layer nearest ramen 614) (205, 205) (layer nearest ramen 614))
         (layer nearest egg 409) (307, 277) (layer nearest egg 409))
         (layer nearest egg 409) (267, 332) (layer nearest egg 409))
         (layer nearest egg 409) (347, 332) (layer nearest egg 409)))"
proof -
  have h: "files kitchen ''broth.png'' = Some (Raster broth)"
    "files kitchen ''ramen.png'' = Some (Raster ramen)"
    "files kitchen ''egg.png'' = Some (Raster egg)" "writable kitchen ''dish.png''"
    by (simp_all add: kitchen_def)
  from C2_paste_positions [where w = kitchen and b = "''broth.png''" and n = "''ramen.png''"
      and ?t0.0 = "''egg.png''" and ?t1.0 = "''egg.png''" and ?t2.0 = "''egg.png''"
      and out = "''dish.png''" and fb = broth and fn = ramen and ?f0.0 = egg
      and ?f1.0 = egg and ?f2.0 = egg and LANCZOS = nearest] h
  show ?thesis by blast
qed

section \<open>At most three toppings\<close>

text \<open>
  C3. Whatever the list of topping paths is, \<open>create_dish\<close> does on it what it does on
  its first three entries: the result and the final world, output file included, are the
  same. The loop runs \<open>min(len(topping_paths), 3)\<close> times, and the paths opened are an
  initial part of the bowl, the noodle and the first three toppings, so a fourth entry is
  never opened. When these files exist and the output can be written, exactly that many
  topping layers are pasted over the bowl and the noodle.
\<close>

theorem C3_at_most_three_toppings:
  "create_dish LANCZOS w b n tps out = create_dish LANCZOS w b n (take 3 tps) out \<and>
   length (enumerate 0 (take 3 tps)) = min (length tps) 3 \<and>
   (\<exists>k. opened (snd (create_dish LANCZOS w b n tps out)) =
          opened w @ take k (b # n # take 3 tps)) \<and>
   (\<forall>fb fn fts.
      files w b = Some (Raster fb) \<and> files w n = Some (Raster fn) \<and>
      map (files w) (take 3 tps) = map (\<lambda>f. Some (Raster f)) fts \<and> writable w out \<longrightarrow>
      length fts = min (length tps) 3 \<and>
      opened (snd (create_dish LANCZOS w b n tps out)) = opened w @ b # n # take 3 tps \<and>
      files (snd (create_dish LANCZOS w b n tps out)) out =
        Some (Raster (paste_in_order blank_canvas (dish_layers LANCZOS fb fn fts))))"
proof (intro conjI allI impI)
  have idem: "take 3 (take 3 tps) = take 3 tps" by simp
  show "create_dish LANCZOS w b n tps out = create_dish LANCZOS w b n (take 3 tps) out"
    unfolding create_dish_def idem ..
  show "length (enumerate 0 (take 3 tps)) = min (length tps) 3"
    by simp
  show "\<exists>k. opened (snd (create_dish LANCZOS w b n tps out)) =
          opened w @ take k (b # n # take 3 tps)"
    by (rule create_dish_opened)
next
  fix fb fn fts
  assume h: "files w b = Some (Raster fb) \<and> files w n = Some (Raster fn) \<and>
      map (files w) (take 3 tps) = map (\<lambda>f. Some (Raster f)) fts \<and> writable w out"
  then have "length (take 3 tps) = length fts" by (metis length_map)
  then show "length fts = min (length tps) 3" by simp
  from h create_dish_ok [of w b fb n fn tps fts out LANCZOS]
  have eq: "create_dish LANCZOS w b n tps out =
     (Inr out,
      w\<lparr>opened := opened w @ b # n # take 3 tps,
        files := (files w)(out \<mapsto>
          Raster (paste_in_order blank_canvas (dish_layers LANCZOS fb fn fts))),
        stdout := stdout w @ [success_line out]\<rparr>)" by blast
  show "opened (snd (create_dish LANCZOS w b n tps out)) = opened w @ b # n # take 3 tps"
    by (simp add: eq)
  show "files (snd (create_dish LANCZOS w b n tps out)) out =
        Some (Raster (paste_in_order blank_canvas (dish_layers LANCZOS fb fn fts)))"
    by (simp add: eq)
qed

text \<open>
  In the sample world a fourth path names no file; the dish is made all the same, from
  the first three toppings.
\<close>

theorem C3_at_most_three_toppings_witness:
  "files kitchen ''broth.png'' = Some (Raster broth) \<and>
   files kitchen ''ramen.png'' = Some (Raster ramen) \<and>
   map (files kitchen) (take 3 [''egg.png'', ''ramen.png'', ''egg.png'', ''missing.png'']) =
     map (\<lambda>f. Some (Raster f)) [egg, ramen, egg] \<and>
   writable kitchen ''dish.png'' \<and>
   files kitchen ''missing.png'' = None \<and>
   length [egg, ramen, egg] =
     min (length [''egg.png'', ''ramen.png'', ''egg.png'', ''missing.png'']) 3 \<and>
   opened (snd (create_dish nearest kitchen ''broth.png'' ''ramen.png''
      [''egg.png'', ''ramen.png'', ''egg.png'', ''missing.png''] ''dish.png'')) =
     [''broth.png'', ''ramen.png'', ''egg.png'', ''ramen.png'', ''egg.png''] \<and>
   files (snd (create_dish nearest kitchen ''broth.png'' ''ramen.png''
      [''egg.png'', ''ramen.png'', ''egg.png'', ''missing.png''] ''dish.png'')) ''dish.png'' =
     Some (Raster (paste_in_order blank_canvas (dish_layers nearest broth ramen [egg, ramen, egg])))"
proof -
  have h: "files kitchen ''broth.png'' = Some (Raster broth) \<and>
   files kitchen ''ramen.png'' = Some (Raster ramen) \<and>
     map (files kitchen) (take 3 [''egg.png'', ''ramen.png'', ''egg.png'', ''missing.png'']) =
       map (\<lambda>f. Some (Raster f)) [egg, ramen, egg] \<and>
     writable kitchen ''dish.png''"
    by (simp add: kitchen_def)
  have m: "files kitchen ''missing.png'' = None" "opened kitchen = []"
    by (simp_all add: kitchen_def)
  from C3_at_most_three_toppings [of nearest kitchen "''broth.png''" "''ramen.png''"
      "[''egg.png'', ''ramen.png'', ''egg.png'', ''missing.png'']" "''dish.png''"]
  have "\<forall>fb fn fts.
      files kitchen ''broth.png'' = Some (Raster fb) \<and>
      files kitchen ''ramen.png'' = Some (Raster fn) \<and>
      map (files kitchen) (take 3 [''egg.png'', ''ramen.png'', ''egg.png'', ''missing.png'']) =
        map (\<lambda>f. Some (Raster f)) fts \<and> writable kitchen ''dish.png'' \<longrightarrow>
      length fts = min (length [''egg.png'', ''ramen.png'', ''egg.png'', ''missing.png'']) 3 \<and>
      opened (snd (create_dish nearest kitchen ''broth.png'' ''ramen.png''
        [''egg.png'', ''ramen.png'', ''egg.png'', ''missing.png''] ''dish.png'')) =
        opened kitchen @ ''broth.png'' # ''ramen.png'' #
          take 3 [''egg.png'', ''ramen.png'', ''egg.png'', ''missing.png''] \<and>
      files (snd (create_dish nearest kitchen ''broth.png'' ''ramen.png''
        [''egg.png'', ''ramen.png'', ''egg.png'', ''missing.png''] ''dish.png'')) ''dish.png'' =
        Some (Raster (paste_in_order blank_canvas (dish_layers nearest fb fn fts)))"
    by blast
  from this [rule_format, OF h] h m show ?thesis by simp
qed

section \<open>Input files that cannot be opened\<close>




section \<open>Size and mode of the output\<close>

text \<open>
  C6. Whenever \<open>create_dish\<close> succeeds, it returns the output path, and the image saved
  there is 1024 by 1024 pixels of mode RGBA, whatever the sizes and modes of the inputs
  are; pasting changes neither the size nor the mode of the canvas.
\<close>

theorem C6_output_size_and_mode:
  "(fst (create_dish LANCZOS w b n tps out) = Inr r \<longrightarrow>
      r = out \<and>
      (\<exists>img. files (snd (create_dish LANCZOS w b n tps out)) out = Some (Raster img) \<and>
         im_size img = (1024, 1024) \<and> mode img = ''RGBA'')) \<and>
   im_size (paste c im box m) = im_size c \<and> mode (paste c im box m) = mode c"
proof (intro conjI impI)
  assume ok: "fst (create_dish LANCZOS w b n tps out) = Inr r"
  from create_dish_success [OF ok] obtain fb fn fts where
    h: "files w b = Some (Raster fb)" "files w n = Some (Raster fn)"
       "map (files w) (take 3 tps) = map (\<lambda>f. Some (Raster f)) fts" "writable w out"
    by blast
  from ok show "r = out" by (simp add: create_dish_ok [OF h])
  show "\<exists>img. files (snd (create_dish LANCZOS w b n tps out)) out = Some (Raster img) \<and>
         im_size img = (1024, 1024) \<and> mode img = ''RGBA''"
    by (simp add: create_dish_ok [OF h] blank_canvas_def Image_new_def)
qed simp_all

text \<open>A run on a 4 by 4 bowl of mode RGB.\<close>

theorem C6_output_size_and_mode_witness:
  "fst (create_dish nearest kitchen ''broth.png'' ''ramen.png'' [''egg.png''] ''dish.png'') =
     Inr ''dish.png'' \<and>
   (\<exists>img. files (snd (create_dish nearest kitchen ''broth.png'' ''ramen.png'' [''egg.png'']
        ''dish.png'')) ''dish.png'' = Some (Raster img) \<and>
      im_size img = (1024, 1024) \<and> mode img = ''RGBA'') \<and>
   im_size broth = (4, 4) \<and> mode broth = ''RGB''"
  using C6_output_size_and_mode [where LANCZOS = nearest and w = kitchen
      and b = "''broth.png''" and n = "''ramen.png''" and tps = "[''egg.png'']"
      and out = "''dish.png''" and r = "''dish.png''"] kitchen_dish
  by (simp add: broth_def Image_new_def)

section \<open>Order of the layers\<close>

text \<open>
  C4. The layers are pasted onto the canvas bowl first, then noodle, then the toppings in
  the order of the input list: when the input files exist and the output can be written,
  the saved image is the blank canvas with the layers of the dish pasted first to last,
  each later layer onto the result of the earlier ones. A paste uses the pasted image as
  its own mask: where the layer reaches a pixel, the new pixel is the blend of the old
  pixel and the layer's pixel by the alpha of the layer's pixel, each byte being the
  weighted mean \<open>(old * (255 - alpha) + new * alpha) / 255\<close> rounded to nearest; where
  that alpha is 255 the new pixel is the layer's pixel; elsewhere the pixel is kept.
\<close>

theorem C4_paste_order_and_blending:
  "(\<forall>fb fn fts.
      files w b = Some (Raster fb) \<and> files w n = Some (Raster fn) \<and>
      map (files w) (take 3 tps) = map (\<lambda>f. Some (Raster f)) fts \<and> writable w out \<longrightarrow>
      files (snd (create_dish LANCZOS w b n tps out)) out =
        Some (Raster (paste_in_order blank_canvas (dish_layers LANCZOS fb fn fts)))) \<and>
   paste_in_order c [] = c \<and>
   paste_in_order c (ls @ [(im, box)]) = paste (paste_in_order c ls) im box im \<and>
   (covers c im box p \<longrightarrow>
      getpixel (paste c im box im) p =
        blend_pixel (alpha (getpixel im (fst p - fst box, snd p - snd box))) (getpixel c p)
          (getpixel im (fst p - fst box, snd p - snd box))) \<and>
   (covers c im box p \<and> alpha (getpixel im (fst p - fst box, snd p - snd box)) = 255 \<longrightarrow>
      getpixel (paste c im box im) p = getpixel im (fst p - fst box, snd p - snd box)) \<and>
   (\<not> covers c im box p \<longrightarrow> getpixel (paste c im box im) p = getpixel c p) \<and>
   unat (BLEND a x y) = (unat x * (255 - unat a) + unat y * unat a + 127) div 255"
proof (intro conjI allI impI)
  fix fb fn fts
  assume "files w b = Some (Raster fb) \<and> files w n = Some (Raster fn) \<and>
      map (files w) (take 3 tps) = map (\<lambda>f. Some (Raster f)) fts \<and> writable w out"
  then have "create_dish LANCZOS w b n tps out =
     (Inr out,
      w\<lparr>opened := opened w @ b # n # take 3 tps,
        files := (files w)(out \<mapsto>
          Raster (paste_in_order blank_canvas (dish_layers LANCZOS fb fn fts))),
        stdout := stdout w @ [success_line out]\<rparr>)"
    using create_dish_ok [of w b fb n fn tps fts out LANCZOS] by blast
  then show "files (snd (create_dish LANCZOS w b n tps out)) out =
        Some (Raster (paste_in_order blank_canvas (dish_layers LANCZOS fb fn fts)))"
    by simp
next
  show "paste_in_order c [] = c" by (simp add: paste_in_order_def)
  show "paste_in_order c (ls @ [(im, box)]) = paste (paste_in_order c ls) im box im"
    by (rule paste_in_order_snoc)
  show "unat (BLEND a x y) = (unat x * (255 - unat a) + unat y * unat a + 127) div 255"
    by (rule unat_BLEND)
next
  assume "covers c im box p"
  then show "getpixel (paste c im box im) p =
        blend_pixel (alpha (getpixel im (fst p - fst box, snd p - snd box))) (getpixel c p)
          (getpixel im (fst p - fst box, snd p - snd box))"
    by (simp add: getpixel_paste)
next
  assume "covers c im box p \<and> alpha (getpixel im (fst p - fst box, snd p - snd box)) = 255"
  then show "getpixel (paste c im box im) p = getpixel im (fst p - fst box, snd p - snd box)"
    by (simp add: getpixel_paste blend_pixel_opaque)
next
  assume "\<not> covers c im box p"
  then show "getpixel (paste c im box im) p = getpixel c p"
    by (simp add: getpixel_paste)
qed

text \<open>
  In the sample dish the opaque egg hides what is below it at (500, 500), and at
  (210, 500) the half-transparent noodle is blended over the bowl. The opaque bowl
  replaces the canvas at (500, 500) and leaves it as it is at (10, 10), outside the bowl.
\<close>

lemma sample_dish_pixels:
  "getpixel (paste_in_order blank_canvas (dish_layers nearest broth ramen [egg])) (500, 500) =
     (250, 250, 240, 255)"
  "getpixel (paste_in_order blank_canvas (dish_layers nearest broth ramen [egg])) (210, 500) =
     (220, 140, 75, 191)"
  by (simp_all add: dish_layers_def paste_in_order_def getpixel_paste covers_def layer_def
      resize_def convert_def nearest_def broth_def ramen_def egg_def Image_new_def
      blank_canvas_def offsets_def BLEND_def)

lemma sample_bowl_pixels:
  "covers blank_canvas (layer nearest broth 819) (102, 102) (500, 500)"
  "alpha (getpixel (layer nearest broth 819) (500 - 102, 500 - 102)) = 255"
  "getpixel (layer nearest broth 819) (500 - 102, 500 - 102) = (200, 60, 20, 255)"
  "\<not> covers blank_canvas (layer nearest broth 819) (102, 102) (10, 10)"
  "getpixel blank_canvas (10, 10) = (255, 255, 255, 0)"
  by (simp_all add: covers_def layer_def resize_def convert_def nearest_def broth_def
      Image_new_def blank_canvas_def)

theorem C4_paste_order_and_blending_witness:
  "files kitchen ''broth.png'' = Some (Raster broth) \<and>
   files kitchen ''ramen.png'' = Some (Raster ramen) \<and>
   map (files kitchen) (take 3 [''egg.png'']) = map (\<lambda>f. Some (Raster f)) [egg] \<and>
   writable kitchen ''dish.png'' \<and>
   (\<exists>img. files (snd (create_dish nearest kitchen ''broth.png'' ''ramen.png'' [''egg.png'']
        ''dish.png'')) ''dish.png'' = Some (Raster img) \<and>
      getpixel img (500, 500) = (250, 250, 240, 255) \<and>
      getpixel img (210, 500) = (220, 140, 75, 191)) \<and>
   covers blank_canvas (layer nearest broth 819) (102, 102) (500, 500) \<and>
   alpha (getpixel (layer nearest broth 819) (500 - 102, 500 - 102)) = 255 \<and>
   getpixel (paste blank_canvas (layer nearest broth 819) (102, 102) (layer nearest broth 819))
     (500, 500) = (200, 60, 20, 255) \<and>
   \<not> covers blank_canvas (layer nearest broth 819) (102, 102) (10, 10) \<and>
   getpixel (paste blank_canvas (layer nearest broth 819) (102, 102) (layer nearest broth 819))
     (10, 10) = (255, 255, 255, 0)"
proof -
  have h: "files kitchen ''broth.png'' = Some (Raster broth) \<and>
   files kitchen ''ramen.png'' = Some (Raster ramen) \<and>
     map (files kitchen) (take 3 [''egg.png'']) = map (\<lambda>f. Some (Raster f)) [egg] \<and>
     writable kitchen ''dish.png''"
    by (simp add: kitchen_def)
  note inside = C4_paste_order_and_blending [where w = kitchen and b = "''broth.png''"
      and n = "''ramen.png''" and tps = "[''egg.png'']" and out = "''dish.png''"
      and LANCZOS = nearest and c = blank_canvas and im = "layer nearest broth 819"
      and box = "(102, 102)" and p = "(500, 500)"]
  note outside = C4_paste_order_and_blending [where c = blank_canvas
      and im = "layer nearest broth 819" and box = "(102, 102)" and p = "(10, 10)"]
  from inside have "\<forall>fb fn fts.
      files kitchen ''broth.png'' = Some (Raster fb) \<and>
      files kitchen ''ramen.png'' = Some (Raster fn) \<and>
      map (files kitchen) (take 3 [''egg.png'']) = map (\<lambda>f. Some (Raster f)) fts \<and>
      writable kitchen ''dish.png'' \<longrightarrow>
      files (snd (create_dish nearest kitchen ''broth.png'' ''ramen.png'' [''egg.png'']
        ''dish.png'')) ''dish.png'' =
        Some (Raster (paste_in_order blank_canvas (dish_layers nearest fb fn fts)))"
    by blast
  from this [rule_format, OF h] sample_dish_pixels
  have dish: "\<exists>img. files (snd (create_dish nearest kitchen ''broth.png'' ''ramen.png''
        [''egg.png''] ''dish.png'')) ''dish.png'' = Some (Raster img) \<and>
      getpixel img (500, 500) = (250, 250, 240, 255) \<and>
      getpixel img (210, 500) = (220, 140, 75, 191)"
    by blast
  from inside sample_bowl_pixels(1,2,3)
  have opaque: "getpixel (paste blank_canvas (layer nearest broth 819) (102, 102)
      (layer nearest broth 819)) (500, 500) = (200, 60, 20, 255)"
    by (simp add: blend_pixel_opaque)
  from outside sample_bowl_pixels(4,5)
  have kept: "getpixel (paste blank_canvas (layer nearest broth 819) (102, 102)
      (layer nearest broth 819)) (10, 10) = (255, 255, 255, 0)"
    by simp
  from h dish opaque kept sample_bowl_pixels(1,2,4) show ?thesis by blast
qed

section \<open>Determinism\<close>

text \<open>
  C7. \<open>create_dish\<close> is a function of the contents of its input files and of its
  arguments: in two worlds that hold the same bowl, noodle and first three toppings, and
  agree on whether the output can be written, it ends with the same result, and when it
  succeeds it saves the same image, pixel for pixel, whatever else differs between the
  worlds. The filter is a function of the source image and the size, as every operation
  of the model is: there is neither randomness nor a clock.
\<close>

theorem C7_same_inputs_same_output:
  assumes "map (files w) (b # n # take 3 tps) = map (files v) (b # n # take 3 tps)"
    and "writable w out = writable v out"
  shows "fst (create_dish LANCZOS w b n tps out) = fst (create_dish LANCZOS v b n tps out) \<and>
     (\<forall>r. fst (create_dish LANCZOS w b n tps out) = Inr r \<longrightarrow>
        files (snd (create_dish LANCZOS w b n tps out)) out \<noteq> None \<and>
        files (snd (create_dish LANCZOS w b n tps out)) out =
        files (snd (create_dish LANCZOS v b n tps out)) out)"
proof (intro conjI allI impI)
  from assms(1) have b: "files w b = files v b" and n: "files w n = files v n"
    and ts: "map (files w) (take 3 tps) = map (files v) (take 3 tps)"
    by simp_all
  show res: "fst (create_dish LANCZOS w b n tps out) = fst (create_dish LANCZOS v b n tps out)"
    using assms by (rule create_dish_cong)
  fix r assume ok: "fst (create_dish LANCZOS w b n tps out) = Inr r"
  from create_dish_success [OF ok] obtain fb fn fts where
    w: "files w b = Some (Raster fb)" "files w n = Some (Raster fn)"
       "map (files w) (take 3 tps) = map (\<lambda>f. Some (Raster f)) fts" "writable w out"
    by blast
  with b n ts assms(2) have v: "files v b = Some (Raster fb)" "files v n = Some (Raster fn)"
       "map (files v) (take 3 tps) = map (\<lambda>f. Some (Raster f)) fts" "writable v out"
    by simp_all
  show "files (snd (create_dish LANCZOS w b n tps out)) out \<noteq> None"
    by (simp add: create_dish_ok [OF w])
  show "files (snd (create_dish LANCZOS w b n tps out)) out =
        files (snd (create_dish LANCZOS v b n tps out)) out"
    by (simp add: create_dish_ok [OF w] create_dish_ok [OF v])
qed

text \<open>Two sample worlds with different histories and other files make the same dish.\<close>

theorem C7_same_inputs_same_output_witness:
  "map (files kitchen) (''broth.png'' # ''ramen.png'' # take 3 [''egg.png'']) =
     map (files kitchen2) (''broth.png'' # ''ramen.png'' # take 3 [''egg.png'']) \<and>
   writable kitchen ''dish.png'' = writable kitchen2 ''dish.png'' \<and>
   kitchen \<noteq> kitchen2 \<and>
   fst (create_dish nearest kitchen ''broth.png'' ''ramen.png'' [''egg.png''] ''dish.png'') =
     Inr ''dish.png'' \<and>
   fst (create_dish nearest kitchen2 ''broth.png'' ''ramen.png'' [''egg.png''] ''dish.png'') =
     Inr ''dish.png'' \<and>
   files (snd (create_dish nearest kitchen ''broth.png'' ''ramen.png'' [''egg.png'']
     ''dish.png'')) ''dish.png'' =
   files (snd (create_dish nearest kitchen2 ''broth.png'' ''ramen.png'' [''egg.png'']
     ''dish.png'')) ''dish.png''"
proof -
  have h: "map (files kitchen) (''broth.png'' # ''ramen.png'' # take 3 [''egg.png'']) =
     map (files kitchen2) (''broth.png'' # ''ramen.png'' # take 3 [''egg.png''])"
    "writable kitchen ''dish.png'' = writable kitchen2 ''dish.png''"
    by (simp_all add: kitchen_def kitchen2_def)
  have d: "kitchen \<noteq> kitchen2"
  proof
    assume "kitchen = kitchen2"
    then have "stdout kitchen = stdout kitchen2" by simp
    then show False by (simp add: kitchen_def kitchen2_def)
  qed
  from C7_same_inputs_same_output [OF h, of nearest] kitchen_dish h d
  show ?thesis by simp
qed

section \<open>Effects of a successful run\<close>

text \<open>
  C8, as stated, does not hold: besides reading its inputs and writing the output file, a
  successful run prints a line. In the sample world nothing was printed before the run
  and one line is printed after it.
\<close>

theorem C8_prints_a_line_counterexample:
  "fst (create_dish nearest kitchen ''broth.png'' ''ramen.png'' [''egg.png''] ''dish.png'') =
     Inr ''dish.png'' \<and>
   stdout kitchen = [] \<and>
   stdout (snd (create_dish nearest kitchen ''broth.png'' ''ramen.png'' [''egg.png'']
     ''dish.png'')) \<noteq> stdout kitchen \<and>
   stdout (snd (create_dish nearest kitchen ''broth.png'' ''ramen.png'' [''egg.png'']
     ''dish.png'')) = [success_line ''dish.png'']"
proof -
  have "map (files kitchen) (take 3 [''egg.png'']) = map (\<lambda>f. Some (Raster f)) [egg]"
    by (simp add: kitchen_def)
  then have "stdout (snd (create_dish nearest kitchen ''broth.png'' ''ramen.png'' [''egg.png'']
     ''dish.png'')) = [success_line ''dish.png'']"
    by (subst create_dish_ok [where fb = broth and fn = ramen and fts = "[egg]"])
      (simp_all add: kitchen_def)
  with kitchen_dish show ?thesis by (simp add: kitchen_def)
qed

text \<open>
  C8, amended. When \<open>create_dish\<close> succeeds, it returns the output path and the final
  world differs from the initial one in exactly three ways: the bowl, the noodle and the
  first three toppings were opened for reading, in this order; the file at the output
  path holds an image; and one line, the success message that names the output path, was
  printed to standard output. Every other file, and what can be written, is as before.
\<close>

theorem C8_effects_on_success:
  assumes "fst (create_dish LANCZOS w b n tps out) = Inr r"
  shows "r = out \<and>
     (\<exists>img. snd (create_dish LANCZOS w b n tps out) =
       w\<lparr>opened := opened w @ b # n # take 3 tps,
         files := (files w)(out \<mapsto> Raster img),
         stdout := stdout w @ [success_line out]\<rparr>)"
proof -
  from create_dish_success [OF assms] obtain fb fn fts where
    h: "files w b = Some (Raster fb)" "files w n = Some (Raster fn)"
       "map (files w) (take 3 tps) = map (\<lambda>f. Some (Raster f)) fts" "writable w out"
    by blast
  from assms have "r = out" by (simp add: create_dish_ok [OF h])
  moreover have "\<exists>img. snd (create_dish LANCZOS w b n tps out) =
       w\<lparr>opened := opened w @ b # n # take 3 tps,
         files := (files w)(out \<mapsto> Raster img),
         stdout := stdout w @ [success_line out]\<rparr>"
    unfolding create_dish_ok [OF h] snd_conv by (rule exI) (rule refl)
  ultimately show ?thesis ..
qed

text \<open>The run in the sample world succeeds and changes that much.\<close>

theorem C8_effects_on_success_witness:
  "fst (create_dish nearest kitchen ''broth.png'' ''ramen.png'' [''egg.png''] ''dish.png'') =
     Inr ''dish.png'' \<and>
   (\<exists>img. snd (create_dish nearest kitchen ''broth.png'' ''ramen.png'' [''egg.png'']
       ''dish.png'') =
     kitchen\<lparr>opened := opened kitchen @ ''broth.png'' # ''ramen.png'' # take 3 [''egg.png''],
       files := (files kitchen)(''dish.png'' \<mapsto> Raster img),
       stdout := stdout kitchen @ [success_line ''dish.png'']\<rparr>)"
  using C8_effects_on_success [OF kitchen_dish] kitchen_dish by simp

section \<open>The index into the table of offsets\<close>

text \<open>
  Without the slice the guard on the index would matter: on four toppings the loop with
  the plain subscription raises \<open>IndexError\<close> at the fourth, while the loop of the source
  takes the fallback and goes on.
\<close>

lemma guard_matters_without_slice:
  "fst (topping_loop_unguarded nearest blank_canvas kitchen
          (enumerate 0 [''egg.png'', ''egg.png'', ''egg.png'', ''egg.png''])) = Inl IndexError \<and>
   fst (topping_loop nearest blank_canvas kitchen
          (enumerate 0 [''egg.png'', ''egg.png'', ''egg.png'', ''egg.png''])) \<noteq> Inl IndexError"
proof -
  have e: "enumerate 0 [''egg.png'', ''egg.png'', ''egg.png'', ''egg.png''] =
      [(0, ''egg.png''), (1, ''egg.png''), (2, ''egg.png''), (3, ''egg.png'')]"
    by (simp add: enumerate_eq_zip upt_rec)
  have f: "\<And>x. files (kitchen\<lparr>opened := x\<rparr>) ''egg.png'' = Some (Raster egg)"
    "files kitchen ''egg.png'' = Some (Raster egg)"
    by (simp_all add: kitchen_def)
  have "map (files kitchen)
      (map snd (enumerate 0 [''egg.png'', ''egg.png'', ''egg.png'', ''egg.png''])) =
      map (\<lambda>f. Some (Raster f)) [egg, egg, egg, egg]"
    by (simp add: f)
  from topping_loop_ok [OF this, of nearest blank_canvas]
  have "fst (topping_loop nearest blank_canvas kitchen
          (enumerate 0 [''egg.png'', ''egg.png'', ''egg.png'', ''egg.png''])) \<noteq> Inl IndexError"
    by simp
  moreover have "fst (topping_loop_unguarded nearest blank_canvas kitchen
          (enumerate 0 [''egg.png'', ''egg.png'', ''egg.png'', ''egg.png''])) = Inl IndexError"
    by (simp add: e f Image_open_Some getitem_sizes resize_and_center_topping offsets_def)
  ultimately show ?thesis by simp
qed

text \<open>
  C9. In the loop of \<open>create_dish\<close> the index into the table of offsets is always in
  bounds, because the list is sliced to three entries first: the table has three
  entries, every index the loop meets is below that, and the function with the plain
  subscription \<open>offsets[i]\<close>, which raises \<open>IndexError\<close> out of bounds, does on every
  world and every list of topping paths exactly what \<open>create_dish\<close> does and never raises
  \<open>IndexError\<close>. So the fallback \<open>(0, 0)\<close> of the conditional expression is never taken.
\<close>

theorem C9_fallback_unreachable:
  "create_dish_unguarded LANCZOS w bowl_path noodle_path topping_paths output_path =
     create_dish LANCZOS w bowl_path noodle_path topping_paths output_path \<and>
   fst (create_dish_unguarded LANCZOS w bowl_path noodle_path topping_paths output_path) \<noteq>
     Inl IndexError \<and>
   topping_loop_unguarded LANCZOS c w (enumerate 0 (take 3 topping_paths)) =
     topping_loop LANCZOS c w (enumerate 0 (take 3 topping_paths)) \<and>
   length offsets = 3 \<and>
   (\<forall>(i, topping_path) \<in> set (enumerate 0 (take 3 topping_paths)). i < length offsets)"
proof (intro conjI)
  have loop: "\<And>c w. topping_loop_unguarded LANCZOS c w (enumerate 0 (take 3 topping_paths)) =
     topping_loop LANCZOS c w (enumerate 0 (take 3 topping_paths))"
    by (rule topping_loop_unguarded_eq) (rule enumerate_take_in_table)
  show eq: "create_dish_unguarded LANCZOS w bowl_path noodle_path topping_paths output_path =
     create_dish LANCZOS w bowl_path noodle_path topping_paths output_path"
    unfolding create_dish_unguarded_def create_dish_def loop ..
  from create_dish_result [where w = w and b = bowl_path and LANCZOS = LANCZOS
      and n = noodle_path and tps = topping_paths and out = output_path]
  have "fst (create_dish LANCZOS w bowl_path noodle_path topping_paths output_path) \<noteq>
     Inl IndexError"
    by (auto dest: open_failure_kinds)
  with eq show "fst (create_dish_unguarded LANCZOS w bowl_path noodle_path topping_paths
      output_path) \<noteq> Inl IndexError"
    by simp
  show "topping_loop_unguarded LANCZOS c w (enumerate 0 (take 3 topping_paths)) =
     topping_loop LANCZOS c w (enumerate 0 (take 3 topping_paths))"
    by (rule loop)
  show "length offsets = 3" by (simp add: offsets_def)
  show "\<forall>(i, topping_path) \<in> set (enumerate 0 (take 3 topping_paths)). i < length offsets"
    by (rule enumerate_take_in_table)
qed

text \<open>
  The third of four toppings has index 2, inside the table, and the run on the four
  toppings, the fourth of which is missing, ends well with or without the guard.
\<close>

theorem C9_fallback_unreachable_witness:
  "(2, ''ramen.png'') \<in>
     set (enumerate 0 (take 3 [''egg.png'', ''egg.png'', ''ramen.png'', ''missing.png''])) \<and>
   2 < length offsets \<and>
   fst (create_dish_unguarded nearest kitchen ''broth.png'' ''ramen.png''
     [''egg.png'', ''egg.png'', ''ramen.png'', ''missing.png''] ''dish.png'') = Inr ''dish.png''"
proof -
  have m: "(2, ''ramen.png'') \<in>
     set (enumerate 0 (take 3 [''egg.png'', ''egg.png'', ''ramen.png'', ''missing.png'']))"
    by (simp add: in_set_enumerate_eq)
  have "map (files kitchen) (take 3 [''egg.png'', ''egg.png'', ''ramen.png'', ''missing.png'']) =
     map (\<lambda>f. Some (Raster f)) [egg, egg, ramen]"
    by (simp add: kitchen_def)
  then have ok: "fst (create_dish nearest kitchen ''broth.png'' ''ramen.png''
     [''egg.png'', ''egg.png'', ''ramen.png'', ''missing.png''] ''dish.png'') = Inr ''dish.png''"
    by (subst create_dish_ok [where fb = broth and fn = ramen and fts = "[egg, egg, ramen]"])
      (simp_all add: kitchen_def)
  from C9_fallback_unreachable [of nearest kitchen "''broth.png''" "''ramen.png''"
      "[''egg.png'', ''egg.png'', ''ramen.png'', ''missing.png'']" "''dish.png''"] m ok
  show ?thesis by auto
qed

section \<open>The two definitions of \<open>create_dish\<close>\<close>

lemma resize_and_center_cli_eq: "resize_and_center_cli = resize_and_center"
  by (intro ext)
    (simp add: resize_and_center_cli_def resize_and_center_def canvas_size_cli_def
      canvas_size_def)

lemma sizes_cli_eq: "sizes_cli = sizes"
  by (simp add: sizes_cli_def sizes_def)

lemma offsets_cli_eq: "offsets_cli = offsets"
  by (simp add: offsets_cli_def offsets_def)

lemma topping_loop_cli_eq:
  "topping_loop_cli LANCZOS c w items = topping_loop LANCZOS c w items"
proof (induction items arbitrary: c w)
  case Nil
  then show ?case by simp
next
  case (Cons a items)
  obtain i p where a: "a = (i, p)" by (cases a)
  show ?case
    by (simp add: a Cons.IH resize_and_center_cli_eq sizes_cli_eq offsets_cli_eq
        cong: prod.case_cong sum.case_cong)
qed

text \<open>
  C10. The function \<open>create_dish\<close> of \<open>create_dish.py\<close> and the one of \<open>combine.py\<close>
  do the same: for every world, bowl path, noodle path, list of topping paths and output
  path they return the same value or raise the same error, and leave the same world, the
  output image included.
\<close>

theorem C10_two_definitions_agree:
  "create_dish_cli LANCZOS w bowl_path noodle_path topping_paths output_path =
   create_dish LANCZOS w bowl_path noodle_path topping_paths output_path"
  unfolding create_dish_cli_def create_dish_def resize_and_center_cli_eq sizes_cli_eq
    topping_loop_cli_eq canvas_size_cli_def canvas_size_def success_line_cli_def
    success_line_def ..

end
